theory Spec2Isabelle
  imports Complex_Main
begin

section \<open>JavaScript values\<close>

text \<open>
  The server class of \<^verbatim>\<open>src/src/Server.js\<close> handles untyped values: settings, API keys,
  secrets and rejection values may be any JavaScript value. Numbers are the finite
  numbers (as reals: rounding of doubles is not modelled), the two infinities and NaN.
  An object is the list of its own properties; a function value is an opaque
  identifier whose behaviour is supplied by the environment. Thenables are not
  among the values: a secret handed to \<^verbatim>\<open>resolve\<close> is always a plain value.
\<close>

datatype jsnum = Num real | PosInf | NegInf | NaN

datatype jsval =
    JUndefined
  | JNull
  | JBool bool
  | JNum jsnum
  | JStr string
  | JObj "(string \<times> jsval) list"
  | JFun nat

text \<open>ToBoolean, as used by \<^verbatim>\<open>error || secret === undefined\<close>.\<close>

fun truthy :: "jsval \<Rightarrow> bool" where
  "truthy JUndefined = False"
| "truthy JNull = False"
| "truthy (JBool b) = b"
| "truthy (JNum (Num r)) = (r \<noteq> 0)"
| "truthy (JNum NaN) = False"
| "truthy (JNum PosInf) = True"
| "truthy (JNum NegInf) = True"
| "truthy (JStr s) = (s \<noteq> [])"
| "truthy (JObj fs) = True"
| "truthy (JFun f) = True"


text \<open>
  \<^verbatim>\<open>d > n\<close> for a finite integral left operand \<open>d\<close> (a difference of two time
  values) and a number \<open>n\<close>: every comparison with NaN is false.
\<close>

fun exceeds :: "int \<Rightarrow> jsnum \<Rightarrow> bool" where
  "exceeds d (Num r) = (real_of_int d > r)"
| "exceeds d PosInf = False"
| "exceeds d NegInf = True"
| "exceeds d NaN = False"

text \<open>\<^verbatim>\<open>n / 1000\<close>, used to report the timeout in seconds.\<close>

fun div1000 :: "jsnum \<Rightarrow> jsnum" where
  "div1000 (Num r) = Num (r / 1000)"
| "div1000 n = n"

text \<open>The property \<open>k\<close> of an object value, if the value is an object that has it.\<close>

fun own_prop :: "jsval \<Rightarrow> string \<Rightarrow> jsval option" where
  "own_prop (JObj fs) k = map_of fs k"
| "own_prop v k = None"

section \<open>The constructor\<close>

text \<open>
  \<^verbatim>\<open>constructor(settings)\<close>: the argument is \<open>None\<close> for \<^verbatim>\<open>undefined\<close> and otherwise a
  settings object, given by its own properties and by the properties it inherits
  through its prototype chain. The tests with \<^verbatim>\<open>hasOwnProperty\<close> see the own
  properties only; \<^verbatim>\<open>settings.secretForKey\<close> at line 51 is a plain read, which falls
  back on the inherited ones. The object \<^verbatim>\<open>{}\<close> that stands in for an absent argument
  has no own property and inherits none of the names the constructor reads. The
  instance keeps the four options the class reads, at the types the constructor
  enforces (\<^verbatim>\<open>verbose\<close> is stored unchecked), and the delegate \<^verbatim>\<open>this.secretForKey\<close>,
  which stays \<^verbatim>\<open>undefined\<close> unless the setting is a function. An application may also
  assign the delegate after construction, as \<^verbatim>\<open>usage/server/http_roundtrip/index.js\<close>
  does.
\<close>

record settings_object =
  own :: "string \<rightharpoonup> jsval"
  inherited :: "string \<rightharpoonup> jsval"

text \<open>The read \<^verbatim>\<open>settings.k\<close>.\<close>

definition get_property :: "settings_object \<Rightarrow> string \<Rightarrow> jsval" where
  "get_property s k =
     (case own s k of
        Some v \<Rightarrow> v
      | None \<Rightarrow> (case inherited s k of Some v \<Rightarrow> v | None \<Rightarrow> JUndefined))"

record settings =
  verbose :: jsval
  secretForKeyTimeout :: jsnum
  permittedTimestampSkew :: jsnum
  bodySizeLimit :: string

record server =
  settings :: settings
  secretForKey :: jsval

definition constructor :: "settings_object option \<Rightarrow> server" where
  "constructor arg =
     (let s = (case arg of
                 None \<Rightarrow> \<lparr>own = Map.empty, inherited = Map.empty\<rparr>
               | Some given \<Rightarrow> given) in
      \<lparr> settings =
          \<lparr> verbose = (case own s ''verbose'' of None \<Rightarrow> JBool False | Some v \<Rightarrow> v),
            secretForKeyTimeout =
              (case own s ''secretForKeyTimeout'' of Some (JNum n) \<Rightarrow> n | _ \<Rightarrow> Num (10 * 1000)),
            permittedTimestampSkew =
              (case own s ''permittedTimestampSkew'' of Some (JNum n) \<Rightarrow> n | _ \<Rightarrow> Num (60 * 1000)),
            bodySizeLimit =
              (case own s ''bodySizeLimit'' of Some (JStr b) \<Rightarrow> b | _ \<Rightarrow> ''5mb'') \<rparr>,
        secretForKey =
          (case get_property s ''secretForKey'' of JFun f \<Rightarrow> JFun f | _ \<Rightarrow> JUndefined) \<rparr>)"

section \<open>The environment\<close>

text \<open>
  What \<^verbatim>\<open>Server.js\<close> imports or takes from the host is a parameter of the model:
  the modules \<^verbatim>\<open>./sign\<close> (\<^verbatim>\<open>sign\<close>, \<^verbatim>\<open>algorithms\<close>) and \<^verbatim>\<open>./canonicalize\<close>, Node's
  \<^verbatim>\<open>url.parse\<close> (its \<^verbatim>\<open>pathname\<close> and \<^verbatim>\<open>query\<close> results) and \<^verbatim>\<open>querystring.parse\<close>,
  the parsing of a date string (\<open>None\<close> is the invalid date, whose time value is NaN),
  the clock, the rendering of values in template literals and of a time by
  \<^verbatim>\<open>toUTCString\<close>, and what a delegate function does when it is called with an API key.
  \<^verbatim>\<open>canonicalize\<close> and \<^verbatim>\<open>sign\<close> may throw instead of returning, for instance on a
  secret of a type the hash refuses: their result is then \<open>None\<close>.
\<close>

datatype delegate_event =
    CallbackInvoked jsval jsval  \<comment> \<open>the delegate calls \<^verbatim>\<open>callback(error, secret)\<close>\<close>
  | PromiseFulfilled jsval       \<comment> \<open>the promise the delegate returned fulfils\<close>
  | PromiseRejected jsval        \<comment> \<open>the promise the delegate returned rejects\<close>

datatype delegate_return = Throws jsval | ReturnsPromise | ReturnsOther

text \<open>
  One call of the delegate: the callback invocations it makes before it returns, how it
  returns, and what it causes later, split at the moment the timeout elapses.
\<close>

record behaviour =
  sync_callbacks :: "(jsval \<times> jsval) list"
  returns :: delegate_return
  before_timeout :: "delegate_event list"
  after_timeout :: "delegate_event list"

record env =
  algorithms :: "string list"
  sign :: "string \<Rightarrow> jsval \<Rightarrow> string \<Rightarrow> string option"
  canonicalize ::
    "string \<Rightarrow> jsval \<Rightarrow> jsval \<Rightarrow> (string \<rightharpoonup> string) \<Rightarrow> jsval \<Rightarrow> string option"
  url_pathname :: "string \<Rightarrow> jsval"
  url_query :: "string \<Rightarrow> jsval"
  querystring_parse :: "jsval \<Rightarrow> (string \<rightharpoonup> jsval)"
  date_parse :: "string \<Rightarrow> int option"
  now :: int
  toUTCString :: "int \<Rightarrow> string"
  render :: "jsval \<Rightarrow> string"
  delegate :: "nat \<Rightarrow> jsval \<Rightarrow> behaviour"

section \<open>Secret lookup\<close>

text \<open>
  The promise created by \<^verbatim>\<open>_getSecretForKey\<close> and what surrounds it. A promise
  settles at most once: \<^verbatim>\<open>resolve\<close> and \<^verbatim>\<open>reject\<close> act on a pending promise only.
  \<open>timer_armed\<close> holds while the timeout is registered and has neither been cleared nor
  run; \<open>hooked\<close> holds while the \<^verbatim>\<open>then\<close>/\<^verbatim>\<open>catch\<close> handlers are attached to the delegate's
  promise and none of them has run. The last three fields only count: the settlements
  that took effect, the runs of the timer callback, and the API keys the delegate was
  called with.
\<close>

datatype promise = Pending | Fulfilled jsval | Rejected jsval

record lookup =
  result :: promise
  timer_armed :: bool
  hooked :: bool
  settlements :: nat
  timer_runs :: nat
  delegate_calls :: "jsval list"

definition resolve :: "jsval \<Rightarrow> lookup \<Rightarrow> lookup" where
  "resolve v s =
     (case result s of
        Pending \<Rightarrow> s\<lparr>result := Fulfilled v, settlements := Suc (settlements s)\<rparr>
      | _ \<Rightarrow> s)"

definition reject :: "jsval \<Rightarrow> lookup \<Rightarrow> lookup" where
  "reject e s =
     (case result s of
        Pending \<Rightarrow> s\<lparr>result := Rejected e, settlements := Suc (settlements s)\<rparr>
      | _ \<Rightarrow> s)"

definition clearTimeout :: "lookup \<Rightarrow> lookup" where
  "clearTimeout s = s\<lparr>timer_armed := False\<rparr>"

text \<open>The \<^verbatim>\<open>callback\<close> closure handed to the delegate.\<close>

definition callback :: "jsval \<Rightarrow> jsval \<Rightarrow> lookup \<Rightarrow> lookup" where
  "callback error sec s =
     (let s' = clearTimeout s in
      if truthy error \<or> sec = JUndefined then reject error s' else resolve sec s')"

definition missing_delegate_error :: jsval where
  "missing_delegate_error =
     JObj [(''message'', JStr ''Missing secretForKey function''),
           (''details'', JStr ''Please implement a 'secretForKey' delegate function'')]"

definition timeout_error :: "env \<Rightarrow> server \<Rightarrow> jsval \<Rightarrow> jsval" where
  "timeout_error E srv key =
     JObj [(''message'', JStr (''Internal failure while attempting to locate secret for API key \"''
                @ render E key @ ''\": secretForKey has timed out after ''
                @ render E (JNum (div1000 (secretForKeyTimeout (settings srv)))) @ '' seconds'')),
           (''code'', JStr ''INTERNAL_ERROR_SECRET_TIMEOUT'')]"

text \<open>The timer callback runs only if the timeout is still registered.\<close>

definition timer_elapses :: "env \<Rightarrow> server \<Rightarrow> jsval \<Rightarrow> lookup \<Rightarrow> lookup" where
  "timer_elapses E srv key s =
     (if timer_armed s
      then reject (timeout_error E srv key)
             (s\<lparr>timer_armed := False, timer_runs := Suc (timer_runs s)\<rparr>)
      else s)"

text \<open>
  A later event of the delegate. The handlers on the delegate's promise exist only if
  the delegate returned a promise, and exactly one of them runs, once.
\<close>

fun on_delegate_event :: "lookup \<Rightarrow> delegate_event \<Rightarrow> lookup" where
  "on_delegate_event s (CallbackInvoked error sec) = callback error sec s"
| "on_delegate_event s (PromiseFulfilled v) =
     (if hooked s then resolve v (clearTimeout (s\<lparr>hooked := False\<rparr>)) else s)"
| "on_delegate_event s (PromiseRejected e) =
     (if hooked s then reject e (clearTimeout (s\<lparr>hooked := False\<rparr>)) else s)"

text \<open>
  The executor of \<^verbatim>\<open>_getSecretForKey\<close> up to the return of the delegate: without a
  delegate function it rejects at once and registers no timer; otherwise it registers
  the timer and calls the delegate, whose synchronous callback invocations run at once.
  A delegate that throws makes the executor throw, which rejects the promise and leaves
  the timer registered.
\<close>

definition lookup_start :: "env \<Rightarrow> server \<Rightarrow> jsval \<Rightarrow> lookup" where
  "lookup_start E srv key =
     (let s0 = \<lparr>result = Pending, timer_armed = False, hooked = False,
                settlements = 0, timer_runs = 0, delegate_calls = []\<rparr> in
      case secretForKey srv of
        JFun f \<Rightarrow>
          (let b = delegate E f key;
               s1 = s0\<lparr>timer_armed := True, delegate_calls := [key]\<rparr>;
               s2 = foldl (\<lambda>s (error, sec). callback error sec s) s1 (sync_callbacks b)
           in case returns b of
                Throws e \<Rightarrow> reject e s2
              | ReturnsPromise \<Rightarrow> s2\<lparr>hooked := True\<rparr>
              | ReturnsOther \<Rightarrow> s2)
      | _ \<Rightarrow> reject missing_delegate_error s0)"

text \<open>
  What happens after the executor has returned, in order: the delegate's events before
  the timeout, the timeout, and the delegate's events after it. Without a delegate
  function no timer was registered and nothing follows.
\<close>

datatype event = FromDelegate delegate_event | TimeoutElapsed

fun on_event :: "env \<Rightarrow> server \<Rightarrow> jsval \<Rightarrow> lookup \<Rightarrow> event \<Rightarrow> lookup" where
  "on_event E srv key s (FromDelegate d) = on_delegate_event s d"
| "on_event E srv key s TimeoutElapsed = timer_elapses E srv key s"

definition timeline :: "env \<Rightarrow> server \<Rightarrow> jsval \<Rightarrow> event list" where
  "timeline E srv key =
     (case secretForKey srv of
        JFun f \<Rightarrow>
          (let b = delegate E f key in
           map FromDelegate (before_timeout b) @ [TimeoutElapsed]
           @ map FromDelegate (after_timeout b))
      | _ \<Rightarrow> [])"

text \<open>The state of the lookup after the first \<open>n\<close> of these events, and at the end.\<close>

definition lookup_after :: "env \<Rightarrow> server \<Rightarrow> jsval \<Rightarrow> nat \<Rightarrow> lookup" where
  "lookup_after E srv key n =
     foldl (on_event E srv key) (lookup_start E srv key) (take n (timeline E srv key))"

definition getSecretForKey :: "env \<Rightarrow> server \<Rightarrow> jsval \<Rightarrow> lookup" where
  "getSecretForKey E srv key =
     foldl (on_event E srv key) (lookup_start E srv key) (timeline E srv key)"

text \<open>
  What holds of a lookup at every moment: it is pending only while nothing has settled
  it and the timer is still registered, a settled lookup was settled once, and the
  timer callback has run at most once and not at all while the timer is registered.
\<close>

definition lookup_inv :: "lookup \<Rightarrow> bool" where
  "lookup_inv s \<longleftrightarrow>
     (result s = Pending \<longrightarrow> settlements s = 0 \<and> timer_armed s)
     \<and> (result s \<noteq> Pending \<longrightarrow> settlements s = 1)
     \<and> timer_runs s \<le> 1
     \<and> (timer_armed s \<longrightarrow> timer_runs s = 0)"

section \<open>Requests\<close>

text \<open>
  The request object: the fields \<^verbatim>\<open>authenticate\<close> reads or writes. \<open>headers\<close> maps the
  own properties of \<^verbatim>\<open>request.headers\<close> (lower-case names, string values); \<open>query\<close> is
  \<open>None\<close> when the request has no own property \<^verbatim>\<open>query\<close> and otherwise the object it
  holds; \<open>http_method\<close> is \<^verbatim>\<open>request.method\<close>. An absent field is \<open>JUndefined\<close>.
  Whatever else a request carries is the extension of the record, which the functions
  below take along.

  The request is also an event emitter. \<open>stream\<close> says what registering listeners on it
  leads to: the \<^verbatim>\<open>data\<close> events with the given chunks followed by the \<^verbatim>\<open>end\<close> event;
  no \<^verbatim>\<open>end\<close> event, because the stream stalls or has ended already; or an exception,
  because \<^verbatim>\<open>request.on\<close> is missing or throws. \<open>listeners\<close> are the events that
  listeners have been registered for.
\<close>

datatype stream = Emits "string list" | Silent | Refuses jsval

record request =
  headers :: "string \<rightharpoonup> string"
  url :: string
  http_method :: string
  query :: "(string \<rightharpoonup> jsval) option"
  rawBody :: jsval
  stream :: stream
  listeners :: "string list"
  body :: jsval
  authenticated :: jsval
  apiKey :: jsval
  secret :: jsval
  signature :: jsval
  signatureExpected :: jsval

text \<open>
  \<^verbatim>\<open>_getRawBody(request)\<close> returns a promise, which is awaited: it is fulfilled with the
  body, or rejected when the executor throws, or it never settles. Without a
  \<^verbatim>\<open>rawBody\<close> it registers a \<^verbatim>\<open>data\<close> and an \<^verbatim>\<open>end\<close> listener on the request and
  resolves at the \<^verbatim>\<open>end\<close> event with the chunks put together, which leaves the stream
  drained.
\<close>

datatype body_read = Got jsval | Failed jsval | Hangs

definition getRawBody :: "'a request_scheme \<Rightarrow> body_read \<times> 'a request_scheme" where
  "getRawBody r =
     (if rawBody r \<noteq> JUndefined \<and> rawBody r \<noteq> JNull then (Got (rawBody r), r)
      else
        case stream r of
          Refuses e \<Rightarrow> (Failed e, r)
        | Silent \<Rightarrow> (Hangs, r\<lparr>listeners := listeners r @ [''data'', ''end'']\<rparr>)
        | Emits cs \<Rightarrow>
            (Got (JStr (foldl (\<lambda>d chunk. d @ chunk) [] cs)),
             r\<lparr>stream := Silent, listeners := listeners r @ [''data'', ''end'']\<rparr>))"

text \<open>
  Lines 88 to 100: what the body data are for the rest of the run, if the run goes on.
  Any argument but \<^verbatim>\<open>true\<close> is the data; \<^verbatim>\<open>true\<close> asks for the body to be read.
\<close>

definition body_argument :: "'a request_scheme \<Rightarrow> jsval \<Rightarrow> body_read" where
  "body_argument r data0 = (if data0 = JBool True then fst (getRawBody r) else Got data0)"

definition getApiKey :: "env \<Rightarrow> 'a request_scheme \<Rightarrow> jsval" where
  "getApiKey E r =
     (case headers r ''x-api-key'' of
        Some k \<Rightarrow> JStr k
      | None \<Rightarrow>
          (let q = (case query r of
                      Some q \<Rightarrow> q
                    | None \<Rightarrow> querystring_parse E (url_query E (url r)))
           in case q ''apiKey'' of Some v \<Rightarrow> v | None \<Rightarrow> JUndefined))"

text \<open>\<^verbatim>\<open>s.split(' ')\<close>: the pieces of \<open>s\<close> between single occurrences of the separator.\<close>

fun split_on :: "char \<Rightarrow> string \<Rightarrow> string list" where
  "split_on c [] = [[]]"
| "split_on c (x # xs) =
     (if x = c then [] # split_on c xs
      else (case split_on c xs of [] \<Rightarrow> [[x]] | w # ws \<Rightarrow> (x # w) # ws))"

text \<open>\<^verbatim>\<open>xs.join(sep)\<close>.\<close>

fun join :: "string \<Rightarrow> string list \<Rightarrow> string" where
  "join sep [] = []"
| "join sep [x] = x"
| "join sep (x # y # ys) = x @ sep @ join sep (y # ys)"

section \<open>Rejection values\<close>

definition api_key_missing :: jsval where
  "api_key_missing =
     JObj [(''message'', JStr ''Missing API Key''), (''code'', JStr ''API_KEY_MISSING'')]"

definition secret_discovery_failed :: "env \<Rightarrow> jsval \<Rightarrow> jsval" where
  "secret_discovery_failed E key =
     JObj [(''message'', JStr (''Internal failure while attempting to locate secret for API key \"''
                @ render E key @ ''\"'')),
           (''code'', JStr ''INTERNAL_ERROR_SECRET_DISCOVERY'')]"

definition api_key_unrecognized :: "env \<Rightarrow> jsval \<Rightarrow> jsval" where
  "api_key_unrecognized E key =
     JObj [(''message'', JStr (''Unrecognized API key: '' @ render E key)),
           (''code'', JStr ''API_KEY_UNRECOGNIZED'')]"

definition authorization_header_missing :: jsval where
  "authorization_header_missing =
     JObj [(''message'', JStr ''Missing authorization. Please sign all incoming requests with the 'authorization' header.''),
           (''code'', JStr ''AUTHORIZATION_HEADER_MISSING'')]"

definition date_header_missing :: jsval where
  "date_header_missing =
     JObj [(''message'', JStr ''Missing timestamp. Please timestamp all incoming requests by including 'date' header.''),
           (''code'', JStr ''DATE_HEADER_MISSING'')]"

definition date_header_invalid :: "env \<Rightarrow> string \<Rightarrow> jsval" where
  "date_header_invalid E date =
     JObj [(''message'', JStr (''Timestamp is too old. Recieved: \"'' @ date
                @ ''\" current time: \"'' @ toUTCString E (now E) @ ''\"'')),
           (''code'', JStr ''DATE_HEADER_INVALID''),
           (''time'', JStr (toUTCString E (now E)))]"

definition authorization_header_invalid :: "string \<Rightarrow> string \<Rightarrow> jsval" where
  "authorization_header_invalid auth example =
     JObj [(''message'', JStr (''Authorization header is improperly formatted: \"'' @ auth @ ''\"'')),
           (''details'', JStr (''It should look like: \"signature '' @ example
                @ '' a42d7b09a929b997aa8e6973bdbd5ca94326cbffc3d06a557d9ed36c6b80d4ff\"'')),
           (''code'', JStr ''AUTHORIZATION_HEADER_INVALID'')]"

definition hmac_algorithm_invalid :: "env \<Rightarrow> string \<Rightarrow> jsval" where
  "hmac_algorithm_invalid E algorithm =
     JObj [(''message'', JStr (''Authorization header send invalid algorithm: \"'' @ algorithm
                @ ''\". The only supported hmac algorithms are: \"''
                @ join ''\", \"'' (algorithms E) @ ''\"'')),
           (''code'', JStr ''HMAC_ALGORITHM_INVALID'')]"

definition signature_invalid :: jsval where
  "signature_invalid =
     JObj [(''message'', JStr ''Signature is invalid.''), (''code'', JStr ''SIGNATURE_INVALID'')]"

text \<open>The codes of the rejection values that the server builds.\<close>

definition server_codes :: "string list" where
  "server_codes =
     [''API_KEY_MISSING'', ''INTERNAL_ERROR_SECRET_DISCOVERY'', ''INTERNAL_ERROR_SECRET_TIMEOUT'',
      ''API_KEY_UNRECOGNIZED'', ''AUTHORIZATION_HEADER_MISSING'', ''DATE_HEADER_MISSING'',
      ''DATE_HEADER_INVALID'', ''AUTHORIZATION_HEADER_INVALID'', ''HMAC_ALGORITHM_INVALID'',
      ''SIGNATURE_INVALID'']"

text \<open>The \<^verbatim>\<open>code\<close> property of a rejection value, if it has one.\<close>

fun rejection_code :: "promise \<Rightarrow> jsval option" where
  "rejection_code (Rejected e) = own_prop e ''code''"
| "rejection_code p = None"

section \<open>Authentication\<close>

text \<open>
  \<^verbatim>\<open>authenticate(request, data)\<close> returns a promise and annotates the request. A run
  of it is described by how the promise ends, the request as it is left, and the API
  keys the delegate was called with. Logging (\<^verbatim>\<open>this.log\<close>) changes neither and is left
  out.

  The executor of the promise is an \<^verbatim>\<open>async\<close> function: an exception thrown in it
  does not reach the promise, which then stays as it is, pending if nothing has settled
  it before. Like the lookup's promise, it is settled by the first \<^verbatim>\<open>resolve\<close> or
  \<^verbatim>\<open>reject\<close> only. The stages below give the state in which they leave a promise that
  was pending when they began. The exceptions followed are those of \<^verbatim>\<open>canonicalize\<close>
  and \<^verbatim>\<open>sign\<close>; the request's fields are read at the types of the record, where
  the reads do not throw.
\<close>

record 'a run =
  outcome :: promise
  request_after :: "'a request_scheme"
  delegate_called_with :: "jsval list"

text \<open>Lines 167 to 172: is the request older than the permitted skew?\<close>

definition too_old :: "env \<Rightarrow> server \<Rightarrow> string \<Rightarrow> bool" where
  "too_old E srv date =
     (case date_parse E date of
        None \<Rightarrow> False
      | Some requestTime \<Rightarrow> exceeds (now E - requestTime) (permittedTimestampSkew (settings srv)))"

text \<open>Lines 185 to 241: the authorization header and the signature.\<close>

definition check_authorization ::
  "env \<Rightarrow> 'a request_scheme \<Rightarrow> jsval \<Rightarrow> jsval \<Rightarrow> jsval \<Rightarrow> string
     \<Rightarrow> promise \<times> 'a request_scheme" where
  "check_authorization E r data key sec auth =
     (let authorizationComponents = split_on CHR '' '' auth in
      if length authorizationComponents < 3
      then (Rejected (authorization_header_invalid auth ''sha256''), r)
      else
        let label = authorizationComponents ! 0;
            algorithm = authorizationComponents ! 1;
            presented = authorizationComponents ! 2
        in
        if label \<noteq> ''signature''
        then (Rejected (authorization_header_invalid auth ''hmac-sha256''), r)
        else if algorithm \<notin> set (algorithms E)
        then (Rejected (hmac_algorithm_invalid E algorithm), r)
        else
          case canonicalize E (http_method r) (url_pathname E (url r))
                 (url_query E (url r)) (headers r) data of
            None \<Rightarrow> (Pending, r)
          | Some canonical \<Rightarrow>
              (case sign E canonical sec algorithm of
                 None \<Rightarrow> (Pending, r)
               | Some calculatedSignature \<Rightarrow>
                   let r' = r\<lparr>signature := JStr calculatedSignature,
                              signatureExpected := JStr calculatedSignature\<rparr>
                   in
                   if presented \<noteq> calculatedSignature
                   then (Rejected signature_invalid, r')
                   else (Fulfilled (JObj [(''apiKey'', key), (''secret'', sec),
                                          (''signature'', JStr presented)]),
                         r'\<lparr>authenticated := JBool True\<rparr>)))"

text \<open>Lines 138 to 180: from the resolved secret to the freshness of the timestamp.\<close>

definition check_headers ::
  "env \<Rightarrow> server \<Rightarrow> 'a request_scheme \<Rightarrow> jsval \<Rightarrow> jsval \<Rightarrow> jsval
     \<Rightarrow> promise \<times> 'a request_scheme" where
  "check_headers E srv r data key sec =
     (if sec = JUndefined then (Rejected (api_key_unrecognized E key), r)
      else
        let r' = r\<lparr>secret := sec\<rparr> in
        case headers r' ''authorization'' of
          None \<Rightarrow> (Rejected authorization_header_missing, r')
        | Some auth \<Rightarrow>
            (case headers r' ''date'' of
               None \<Rightarrow> (Rejected date_header_missing, r')
             | Some date \<Rightarrow>
                 if too_old E srv date then (Rejected (date_header_invalid E date), r')
                 else check_authorization E r' data key sec auth))"

text \<open>Lines 116 to 136: awaiting the secret.\<close>

definition await_secret ::
  "env \<Rightarrow> server \<Rightarrow> 'a request_scheme \<Rightarrow> jsval \<Rightarrow> jsval \<Rightarrow> promise
     \<Rightarrow> promise \<times> 'a request_scheme" where
  "await_secret E srv r data key p =
     (case p of
        Pending \<Rightarrow> (Pending, r)
      | Rejected error \<Rightarrow>
          if error = JUndefined then (Rejected (secret_discovery_failed E key), r)
          else (Rejected error, r)
      | Fulfilled sec \<Rightarrow> check_headers E srv r data key sec)"

text \<open>Lines 102 to 241: the run from the extraction of the API key on.\<close>

definition from_key :: "env \<Rightarrow> server \<Rightarrow> 'a request_scheme \<Rightarrow> jsval \<Rightarrow> 'a run" where
  "from_key E srv r data =
     (let key = getApiKey E r in
      if key = JUndefined
      then \<lparr>outcome = Rejected api_key_missing, request_after = r, delegate_called_with = []\<rparr>
      else
        let r2 = r\<lparr>apiKey := key\<rparr>;
            l = getSecretForKey E srv key;
            (p, r3) = await_secret E srv r2 data key (result l)
        in \<lparr>outcome = p, request_after = r3, delegate_called_with = delegate_calls l\<rparr>)"

text \<open>
  The whole run. With \<^verbatim>\<open>true\<close> as the body argument the body is read first. If that
  never ends, nothing else happens. If it fails, the \<^verbatim>\<open>catch\<close> block at lines 96 to 99
  rejects the promise with the error and, having no \<^verbatim>\<open>return\<close>, lets the run go on
  with the data still \<^verbatim>\<open>true\<close> and no body stored: the request is worked on as
  before, and what the rest of the run resolves or rejects with comes too late to
  change the promise.
\<close>

definition authenticate :: "env \<Rightarrow> server \<Rightarrow> 'a request_scheme \<Rightarrow> jsval \<Rightarrow> 'a run" where
  "authenticate E srv req data0 =
     (let r0 = req\<lparr>authenticated := JBool False\<rparr> in
      if data0 = JBool True
      then
        (case getRawBody r0 of
           (Got data, r) \<Rightarrow> from_key E srv (r\<lparr>body := data\<rparr>) data
         | (Failed e, r) \<Rightarrow> (from_key E srv r data0)\<lparr>outcome := Rejected e\<rparr>
         | (Hangs, r) \<Rightarrow>
             \<lparr>outcome = Pending, request_after = r, delegate_called_with = []\<rparr>)
      else from_key E srv r0 data0)"

text \<open>The request as lines 83 to 100 leave it.\<close>

definition prepared :: "'a request_scheme \<Rightarrow> jsval \<Rightarrow> 'a request_scheme" where
  "prepared req data0 =
     (let r0 = req\<lparr>authenticated := JBool False\<rparr> in
      if data0 = JBool True
      then (case getRawBody r0 of (Got data, r) \<Rightarrow> r\<lparr>body := data\<rparr> | (other, r) \<Rightarrow> r)
      else r0)"

section \<open>Examples\<close>

text \<open>
  An environment, servers and requests to run the model on. The modules \<^verbatim>\<open>./sign\<close> and
  \<^verbatim>\<open>./canonicalize\<close> and the host functions are parameters of the model; here they are
  replaced by small stand-ins, enough to tell a matching signature from another one:
  the stand-in signature is the algorithm, the secret and the canonical string joined
  by \<open>/\<close>, and signing throws when the secret is not a string; the stand-in
  canonical string is the method followed by the path. The clock
  stands at 18:49:00 GMT on 20 April 2016.
\<close>

definition example_sign :: "string \<Rightarrow> jsval \<Rightarrow> string \<Rightarrow> string option" where
  "example_sign canonical sec algorithm =
     (case sec of JStr k \<Rightarrow> Some (algorithm @ ''/'' @ k @ ''/'' @ canonical) | _ \<Rightarrow> None)"

definition example_canonicalize ::
  "string \<Rightarrow> jsval \<Rightarrow> jsval \<Rightarrow> (string \<rightharpoonup> string) \<Rightarrow> jsval \<Rightarrow> string option" where
  "example_canonicalize m path q hs data = Some (m @ (case path of JStr p \<Rightarrow> p | _ \<Rightarrow> []))"

definition example_date_parse :: "string \<Rightarrow> int option" where
  "example_date_parse d =
     (if d = ''Wed, 20 Apr 2016 18:48:24 GMT'' then Some 1461178104000
      else if d = ''Wed, 20 Apr 2016 18:46:24 GMT'' then Some 1461177984000
      else if d = ''Wed, 20 Apr 2016 19:48:24 GMT'' then Some 1461181704000
      else None)"

definition example_render :: "jsval \<Rightarrow> string" where
  "example_render v =
     (case v of JStr s \<Rightarrow> s | JUndefined \<Rightarrow> ''undefined'' | JNull \<Rightarrow> ''null'' | _ \<Rightarrow> ''?'')"

definition example_querystring_parse :: "jsval \<Rightarrow> (string \<rightharpoonup> jsval)" where
  "example_querystring_parse q =
     (case q of
        JStr s \<Rightarrow>
          map_of (map (\<lambda>kv. (takeWhile (\<lambda>c. c \<noteq> CHR ''='') kv,
                             JStr (drop 1 (dropWhile (\<lambda>c. c \<noteq> CHR ''='') kv))))
                      (split_on CHR ''&'' s))
      | _ \<Rightarrow> Map.empty)"

text \<open>
  Delegates. Number 0 is the one of \<^verbatim>\<open>usage/server/http_roundtrip/index.js\<close>: it calls
  back at once, with the secret of a known key and with no argument otherwise.
  Number 1 returns a promise that fulfils with the secret, or with \<^verbatim>\<open>undefined\<close> for
  an unknown key. Number 2 never calls back. Number 3 calls back with an error object
  of its own, number 4 with an error that is a string. Number 5 returns a
  promise and also calls back: the callback comes first, the promise fulfils after the
  timeout. Any other number calls back at once with a secret that is a number.
\<close>

definition known_secret :: "jsval \<Rightarrow> jsval" where
  "known_secret key =
     (if key = JStr ''API_KEY'' then JStr ''SECRET''
      else if key = JStr ''API_KEY_TWO'' then JStr ''SECRET_TWO''
      else if key = JStr ''API_KEY_THREE'' then JStr ''SECRET_THREE''
      else JUndefined)"

definition example_delegate :: "nat \<Rightarrow> jsval \<Rightarrow> behaviour" where
  "example_delegate f key =
     (if f = 0 then
        \<lparr>sync_callbacks =
           [if known_secret key \<noteq> JUndefined then (JNull, known_secret key)
            else (JUndefined, JUndefined)],
         returns = ReturnsOther, before_timeout = [], after_timeout = []\<rparr>
      else if f = 1 then
        \<lparr>sync_callbacks = [], returns = ReturnsPromise,
         before_timeout = [PromiseFulfilled (known_secret key)], after_timeout = []\<rparr>
      else if f = 2 then
        \<lparr>sync_callbacks = [], returns = ReturnsOther, before_timeout = [], after_timeout = []\<rparr>
      else if f = 3 then
        \<lparr>sync_callbacks = [(JObj [(''message'', JStr ''API key not found'')], JUndefined)],
         returns = ReturnsOther, before_timeout = [], after_timeout = []\<rparr>
      else if f = 4 then
        \<lparr>sync_callbacks = [(JStr ''database unavailable'', JUndefined)],
         returns = ReturnsOther, before_timeout = [], after_timeout = []\<rparr>
      else if f = 5 then
        \<lparr>sync_callbacks = [], returns = ReturnsPromise,
         before_timeout = [CallbackInvoked JNull (JStr ''SECRET'')],
         after_timeout = [PromiseFulfilled (JStr ''OTHER'')]\<rparr>
      else
        \<lparr>sync_callbacks = [(JNull, JNum (Num 12345))],
         returns = ReturnsOther, before_timeout = [], after_timeout = []\<rparr>)"

definition example_env :: env where
  "example_env =
     \<lparr>algorithms = [''sha1'', ''sha256'', ''sha512''],
      sign = example_sign,
      canonicalize = example_canonicalize,
      url_pathname = (\<lambda>u. JStr (takeWhile (\<lambda>c. c \<noteq> CHR ''?'') u)),
      url_query = (\<lambda>u. case dropWhile (\<lambda>c. c \<noteq> CHR ''?'') u of
                            [] \<Rightarrow> JNull | c # q \<Rightarrow> JStr q),
      querystring_parse = example_querystring_parse,
      date_parse = example_date_parse,
      now = 1461178140000,
      toUTCString = (\<lambda>t. ''Wed, 20 Apr 2016 18:49:00 GMT''),
      render = example_render,
      delegate = example_delegate\<rparr>"

text \<open>
  A server built with default settings whose delegate is then set to function \<open>f\<close>,
  and one that was given no delegate.
\<close>

definition example_server :: "nat \<Rightarrow> server" where
  "example_server f = (constructor None)\<lparr>secretForKey := JFun f\<rparr>"

definition bare_server :: server where
  "bare_server = constructor None"

text \<open>
  A \<^verbatim>\<open>GET /items/\<close> request with the given headers and nothing else set, whose
  stream ends at once.
\<close>

definition example_request :: "(string \<rightharpoonup> string) \<Rightarrow> request" where
  "example_request hs =
     \<lparr>headers = hs, url = ''/items/'', http_method = ''GET'', query = None,
      rawBody = JUndefined, stream = Emits [], listeners = [], body = JUndefined,
      authenticated = JUndefined,
      apiKey = JUndefined, secret = JUndefined, signature = JUndefined,
      signatureExpected = JUndefined\<rparr>"

definition signed_request :: "string \<Rightarrow> string \<Rightarrow> string \<Rightarrow> request" where
  "signed_request key date auth =
     example_request [''x-api-key'' \<mapsto> key, ''date'' \<mapsto> date, ''authorization'' \<mapsto> auth]"

text \<open>
  The exception of a request object that has no \<^verbatim>\<open>on\<close> method, and settings objects:
  one that names its options as the code does, one that names them with the suffix
  \<^verbatim>\<open>Ms\<close>, and one whose values are not numbers.
\<close>

definition not_an_emitter :: jsval where
  "not_an_emitter =
     JObj [(''name'', JStr ''TypeError''), (''message'', JStr ''request.on is not a function'')]"

definition plain_settings :: settings_object where
  "plain_settings =
     \<lparr>own = [''secretForKeyTimeout'' \<mapsto> JNum (Num 5000),
             ''permittedTimestampSkew'' \<mapsto> JNum (Num 500)],
      inherited = Map.empty\<rparr>"

definition suffixed_settings :: settings_object where
  "suffixed_settings =
     \<lparr>own = [''secretForKeyTimeoutMs'' \<mapsto> JNum (Num 5000),
             ''permittedTimestampSkewMs'' \<mapsto> JNum (Num 500)],
      inherited = Map.empty\<rparr>"

definition textual_settings :: settings_object where
  "textual_settings =
     \<lparr>own = [''secretForKeyTimeout'' \<mapsto> JStr ''5000'',
             ''permittedTimestampSkew'' \<mapsto> JBool True],
      inherited = Map.empty\<rparr>"

section \<open>The constructor's defaults\<close>




section \<open>The secret lookup settles once\<close>

lemma resolve_fields:
  "result (resolve v s) = (if result s = Pending then Fulfilled v else result s)"
  "settlements (resolve v s) = (if result s = Pending then Suc (settlements s) else settlements s)"
  "timer_armed (resolve v s) = timer_armed s"
  "timer_runs (resolve v s) = timer_runs s"
  "hooked (resolve v s) = hooked s"
  "delegate_calls (resolve v s) = delegate_calls s"
  by (simp_all add: resolve_def split: promise.splits)

lemma reject_fields:
  "result (reject e s) = (if result s = Pending then Rejected e else result s)"
  "settlements (reject e s) = (if result s = Pending then Suc (settlements s) else settlements s)"
  "timer_armed (reject e s) = timer_armed s"
  "timer_runs (reject e s) = timer_runs s"
  "hooked (reject e s) = hooked s"
  "delegate_calls (reject e s) = delegate_calls s"
  by (simp_all add: reject_def split: promise.splits)

lemmas lookup_fields = resolve_fields reject_fields

lemma inv_callback: "lookup_inv s \<Longrightarrow> lookup_inv (callback error sec s)"
  by (simp add: lookup_inv_def callback_def Let_def lookup_fields clearTimeout_def)

lemma inv_sync:
  "lookup_inv s \<Longrightarrow> lookup_inv (foldl (\<lambda>s (error, sec). callback error sec s) s cs)"
  by (induction cs arbitrary: s) (auto simp: inv_callback)

lemma inv_start: "lookup_inv (lookup_start E srv key)"
proof (cases "secretForKey srv")
  case (JFun f)
  let ?s1 = "\<lparr>result = Pending, timer_armed = True, hooked = False,
                settlements = 0, timer_runs = 0, delegate_calls = [key]\<rparr>"
  have "lookup_inv ?s1" by (simp add: lookup_inv_def)
  then have "lookup_inv (foldl (\<lambda>s (error, sec). callback error sec s) ?s1
      (sync_callbacks (delegate E f key)))" by (rule inv_sync)
  then show ?thesis using JFun
    by (simp add: lookup_start_def Let_def lookup_inv_def lookup_fields
        split: delegate_return.splits)
qed (simp_all add: lookup_start_def lookup_inv_def lookup_fields)

lemma inv_event: "lookup_inv s \<Longrightarrow> lookup_inv (on_event E srv key s e)"
proof (cases e)
  case (FromDelegate d)
  assume "lookup_inv s"
  then show ?thesis using FromDelegate
    by (cases d)
      (simp_all add: inv_callback, simp_all add: lookup_inv_def lookup_fields clearTimeout_def)
next
  case TimeoutElapsed
  assume "lookup_inv s"
  then show ?thesis using TimeoutElapsed
    by (simp add: lookup_inv_def timer_elapses_def lookup_fields)
qed

lemma inv_events: "lookup_inv s \<Longrightarrow> lookup_inv (foldl (on_event E srv key) s es)"
  by (induction es arbitrary: s) (auto simp: inv_event)

lemma settled_event: "result s \<noteq> Pending \<Longrightarrow> result (on_event E srv key s e) = result s"
proof (cases e)
  case (FromDelegate d)
  assume "result s \<noteq> Pending"
  then show ?thesis using FromDelegate
    by (cases d) (simp_all add: callback_def Let_def lookup_fields clearTimeout_def)
next
  case TimeoutElapsed
  assume "result s \<noteq> Pending"
  then show ?thesis using TimeoutElapsed
    by (simp add: timer_elapses_def lookup_fields)
qed

lemma settled_events:
  "result s \<noteq> Pending \<Longrightarrow> result (foldl (on_event E srv key) s es) = result s"
  by (induction es arbitrary: s) (auto simp: settled_event)

lemma timeout_settles: "lookup_inv s \<Longrightarrow> result (timer_elapses E srv key s) \<noteq> Pending"
  by (auto simp: lookup_inv_def timer_elapses_def lookup_fields)



lemma lookup_settled: "result (getSecretForKey E srv key) \<noteq> Pending"
proof (cases "secretForKey srv")
  case (JFun f)
  let ?b = "delegate E f key"
  let ?s = "foldl (on_event E srv key) (lookup_start E srv key)
              (map FromDelegate (before_timeout ?b))"
  have "lookup_inv ?s" by (rule inv_events) (rule inv_start)
  then have "result (timer_elapses E srv key ?s) \<noteq> Pending" by (rule timeout_settles)
  then show ?thesis using JFun
    by (simp add: getSecretForKey_def timeline_def Let_def settled_events)
qed (simp_all add: getSecretForKey_def timeline_def lookup_start_def lookup_fields)

text \<open>Unfolding the model on the examples.\<close>

lemmas example_defs =
  example_env_def example_server_def bare_server_def constructor_def get_property_def
  example_delegate_def known_secret_def example_request_def signed_request_def
  example_sign_def example_canonicalize_def example_date_parse_def example_render_def
  example_querystring_parse_def not_an_emitter_def plain_settings_def
  suffixed_settings_def textual_settings_def

lemmas run_defs =
  authenticate_def from_key_def await_secret_def check_headers_def check_authorization_def
  too_old_def getApiKey_def getRawBody_def body_argument_def getSecretForKey_def
  lookup_after_def lookup_start_def timeline_def callback_def clearTimeout_def
  timer_elapses_def lookup_fields Let_def



section \<open>Outcomes, stage by stage\<close>

lemma calls_event: "delegate_calls (on_event E srv key s e) = delegate_calls s"
proof (cases e)
  case (FromDelegate d)
  then show ?thesis
    by (cases d) (simp_all add: callback_def Let_def lookup_fields clearTimeout_def)
qed (simp add: timer_elapses_def lookup_fields)

lemma calls_events: "delegate_calls (foldl (on_event E srv key) s es) = delegate_calls s"
  by (induction es arbitrary: s) (simp_all add: calls_event)

lemma calls_sync:
  "delegate_calls (foldl (\<lambda>s (error, sec). callback error sec s) s cs) = delegate_calls s"
  by (induction cs arbitrary: s)
    (simp_all add: callback_def Let_def lookup_fields clearTimeout_def split: prod.splits)

lemma calls_lookup:
  "delegate_calls (getSecretForKey E srv key) = (case secretForKey srv of JFun f \<Rightarrow> [key] | _ \<Rightarrow> [])"
  by (simp add: getSecretForKey_def calls_events lookup_start_def Let_def calls_sync lookup_fields
      split: jsval.splits delegate_return.splits)

lemma check_authorization_frame:
  "headers (snd (check_authorization E r d k s a)) = headers r"
  "url (snd (check_authorization E r d k s a)) = url r"
  "http_method (snd (check_authorization E r d k s a)) = http_method r"
  "query (snd (check_authorization E r d k s a)) = query r"
  "rawBody (snd (check_authorization E r d k s a)) = rawBody r"
  "stream (snd (check_authorization E r d k s a)) = stream r"
  "listeners (snd (check_authorization E r d k s a)) = listeners r"
  "request.more (snd (check_authorization E r d k s a)) = request.more r"
  "body (snd (check_authorization E r d k s a)) = body r"
  "apiKey (snd (check_authorization E r d k s a)) = apiKey r"
  "secret (snd (check_authorization E r d k s a)) = secret r"
  by (simp_all add: check_authorization_def Let_def split: option.splits)

lemma check_headers_frame:
  "headers (snd (check_headers E srv r d k s)) = headers r"
  "url (snd (check_headers E srv r d k s)) = url r"
  "http_method (snd (check_headers E srv r d k s)) = http_method r"
  "query (snd (check_headers E srv r d k s)) = query r"
  "rawBody (snd (check_headers E srv r d k s)) = rawBody r"
  "stream (snd (check_headers E srv r d k s)) = stream r"
  "listeners (snd (check_headers E srv r d k s)) = listeners r"
  "request.more (snd (check_headers E srv r d k s)) = request.more r"
  "body (snd (check_headers E srv r d k s)) = body r"
  "apiKey (snd (check_headers E srv r d k s)) = apiKey r"
  by (simp_all add: check_headers_def Let_def check_authorization_frame split: option.splits)

lemma await_secret_frame:
  "headers (snd (await_secret E srv r d k p)) = headers r"
  "url (snd (await_secret E srv r d k p)) = url r"
  "http_method (snd (await_secret E srv r d k p)) = http_method r"
  "query (snd (await_secret E srv r d k p)) = query r"
  "rawBody (snd (await_secret E srv r d k p)) = rawBody r"
  "stream (snd (await_secret E srv r d k p)) = stream r"
  "listeners (snd (await_secret E srv r d k p)) = listeners r"
  "request.more (snd (await_secret E srv r d k p)) = request.more r"
  "body (snd (await_secret E srv r d k p)) = body r"
  "apiKey (snd (await_secret E srv r d k p)) = apiKey r"
  by (simp_all add: await_secret_def check_headers_frame split: promise.splits)

lemma getRawBody_result [simp]:
  "fst (getRawBody (r\<lparr>authenticated := a\<rparr>)) = fst (getRawBody r)"
  by (simp add: getRawBody_def split: stream.splits)

lemma getRawBody_frame:
  "headers (snd (getRawBody r)) = headers r"
  "url (snd (getRawBody r)) = url r"
  "http_method (snd (getRawBody r)) = http_method r"
  "query (snd (getRawBody r)) = query r"
  "rawBody (snd (getRawBody r)) = rawBody r"
  "request.more (snd (getRawBody r)) = request.more r"
  "body (snd (getRawBody r)) = body r"
  "apiKey (snd (getRawBody r)) = apiKey r"
  "authenticated (snd (getRawBody r)) = authenticated r"
  "stream (snd (getRawBody (r\<lparr>authenticated := a\<rparr>))) = stream (snd (getRawBody r))"
  "listeners (snd (getRawBody (r\<lparr>authenticated := a\<rparr>))) = listeners (snd (getRawBody r))"
  by (simp_all add: getRawBody_def split: stream.splits)

lemma getApiKey_cong:
  "headers r = headers r' \<Longrightarrow> query r = query r' \<Longrightarrow> url r = url r' \<Longrightarrow>
   getApiKey E r = getApiKey E r'"
  by (simp add: getApiKey_def Let_def split: option.splits)

lemma getApiKey_frame [simp]:
  "getApiKey E (r\<lparr>authenticated := a\<rparr>) = getApiKey E r"
  "getApiKey E (r\<lparr>body := b\<rparr>) = getApiKey E r"
  "getApiKey E (snd (getRawBody r)) = getApiKey E r"
  by (rule getApiKey_cong; simp add: getRawBody_frame)+

lemma check_authorization_outcome:
  "fst (check_authorization E r data key sec auth) =
     (if length (split_on CHR '' '' auth) < 3
      then Rejected (authorization_header_invalid auth ''sha256'')
      else if split_on CHR '' '' auth ! 0 \<noteq> ''signature''
      then Rejected (authorization_header_invalid auth ''hmac-sha256'')
      else if split_on CHR '' '' auth ! 1 \<notin> set (algorithms E)
      then Rejected (hmac_algorithm_invalid E (split_on CHR '' '' auth ! 1))
      else
        case canonicalize E (http_method r) (url_pathname E (url r))
               (url_query E (url r)) (headers r) data of
          None \<Rightarrow> Pending
        | Some canonical \<Rightarrow>
            (case sign E canonical sec (split_on CHR '' '' auth ! 1) of
               None \<Rightarrow> Pending
             | Some calculatedSignature \<Rightarrow>
                 if split_on CHR '' '' auth ! 2 \<noteq> calculatedSignature
                 then Rejected signature_invalid
                 else Fulfilled (JObj [(''apiKey'', key), (''secret'', sec),
                        (''signature'', JStr (split_on CHR '' '' auth ! 2))])))"
  by (simp add: check_authorization_def Let_def split: option.splits)

lemma check_headers_outcome:
  "fst (check_headers E srv r data key sec) =
     (if sec = JUndefined then Rejected (api_key_unrecognized E key)
      else case headers r ''authorization'' of
             None \<Rightarrow> Rejected authorization_header_missing
           | Some auth \<Rightarrow>
               (case headers r ''date'' of
                  None \<Rightarrow> Rejected date_header_missing
                | Some date \<Rightarrow>
                    if too_old E srv date then Rejected (date_header_invalid E date)
                    else fst (check_authorization E r data key sec auth)))"
  by (simp add: check_headers_def Let_def check_authorization_outcome split: option.splits)

lemma await_secret_outcome:
  "fst (await_secret E srv r data key p) =
     (case p of
        Pending \<Rightarrow> Pending
      | Rejected error \<Rightarrow>
          if error = JUndefined then Rejected (secret_discovery_failed E key) else Rejected error
      | Fulfilled sec \<Rightarrow> fst (check_headers E srv r data key sec))"
  by (simp add: await_secret_def split: promise.splits)

lemma check_authorization_outcome_cong:
  "headers r = headers r' \<Longrightarrow> url r = url r' \<Longrightarrow> http_method r = http_method r' \<Longrightarrow>
   fst (check_authorization E r data key sec auth) = fst (check_authorization E r' data key sec auth)"
  by (simp add: check_authorization_outcome)

lemma await_secret_outcome_cong:
  "headers r = headers r' \<Longrightarrow> url r = url r' \<Longrightarrow> http_method r = http_method r' \<Longrightarrow>
   fst (await_secret E srv r data key p) = fst (await_secret E srv r' data key p)"
  by (simp add: await_secret_outcome check_headers_outcome
      check_authorization_outcome_cong [of r r'] split: promise.splits option.splits)

lemma outcome_from_key:
  "outcome (from_key E srv r data) =
     (if getApiKey E r = JUndefined then Rejected api_key_missing
      else fst (await_secret E srv r data (getApiKey E r)
                  (result (getSecretForKey E srv (getApiKey E r)))))"
proof -
  have "fst (await_secret E srv (r\<lparr>apiKey := k\<rparr>) data k p) = fst (await_secret E srv r data k p)"
    for k p
    by (rule await_secret_outcome_cong) simp_all
  then show ?thesis by (simp add: from_key_def Let_def case_prod_beta)
qed

lemma request_from_key:
  "request_after (from_key E srv r data) =
     (if getApiKey E r = JUndefined then r
      else snd (await_secret E srv (r\<lparr>apiKey := getApiKey E r\<rparr>) data (getApiKey E r)
                  (result (getSecretForKey E srv (getApiKey E r)))))"
  by (simp add: from_key_def Let_def case_prod_beta)

lemma calls_from_key:
  "delegate_called_with (from_key E srv r data) =
     (if getApiKey E r = JUndefined then []
      else case secretForKey srv of JFun f \<Rightarrow> [getApiKey E r] | _ \<Rightarrow> [])"
  by (simp add: from_key_def Let_def calls_lookup case_prod_beta)

lemma from_key_outcome_cong:
  "headers r = headers r' \<Longrightarrow> url r = url r' \<Longrightarrow> http_method r = http_method r' \<Longrightarrow>
   query r = query r' \<Longrightarrow> outcome (from_key E srv r data) = outcome (from_key E srv r' data)"
  using getApiKey_cong [of r r' E] await_secret_outcome_cong [of r r']
  by (simp add: outcome_from_key)

lemma from_key_frame:
  "headers (request_after (from_key E srv r data)) = headers r"
  "url (request_after (from_key E srv r data)) = url r"
  "http_method (request_after (from_key E srv r data)) = http_method r"
  "query (request_after (from_key E srv r data)) = query r"
  "rawBody (request_after (from_key E srv r data)) = rawBody r"
  "stream (request_after (from_key E srv r data)) = stream r"
  "listeners (request_after (from_key E srv r data)) = listeners r"
  "request.more (request_after (from_key E srv r data)) = request.more r"
  "body (request_after (from_key E srv r data)) = body r"
  "apiKey (request_after (from_key E srv r data)) =
     (if getApiKey E r = JUndefined then apiKey r else getApiKey E r)"
  by (simp_all add: request_from_key await_secret_frame)

lemma prepared_fields:
  "headers (prepared req data0) = headers req"
  "url (prepared req data0) = url req"
  "http_method (prepared req data0) = http_method req"
  "query (prepared req data0) = query req"
  "rawBody (prepared req data0) = rawBody req"
  "request.more (prepared req data0) = request.more req"
  "apiKey (prepared req data0) = apiKey req"
  "authenticated (prepared req data0) = JBool False"
  "stream (prepared req data0) =
     (if data0 = JBool True then stream (snd (getRawBody req)) else stream req)"
  "listeners (prepared req data0) =
     (if data0 = JBool True then listeners (snd (getRawBody req)) else listeners req)"
  "body (prepared req data0) =
     (case body_argument req data0 of
        Got data \<Rightarrow> if data0 = JBool True then data else body req
      | other \<Rightarrow> body req)"
  by (simp_all add: prepared_def Let_def body_argument_def getRawBody_def split: stream.splits)

lemma getApiKey_prepared [simp]: "getApiKey E (prepared req data0) = getApiKey E req"
  by (rule getApiKey_cong) (simp_all add: prepared_fields)

text \<open>The three ways through lines 88 to 100.\<close>

lemma authenticate_cases:
  "authenticate E srv req data0 =
     (case body_argument req data0 of
        Got data \<Rightarrow> from_key E srv (prepared req data0) data
      | Failed e \<Rightarrow> (from_key E srv (prepared req data0) data0)\<lparr>outcome := Rejected e\<rparr>
      | Hangs \<Rightarrow>
          \<lparr>outcome = Pending, request_after = prepared req data0, delegate_called_with = []\<rparr>)"
  by (simp add: authenticate_def prepared_def Let_def body_argument_def getRawBody_def
      split: stream.splits)

lemma unchanged_fields:
  "headers (request_after (authenticate E srv req data0)) = headers req"
  "url (request_after (authenticate E srv req data0)) = url req"
  "http_method (request_after (authenticate E srv req data0)) = http_method req"
  "query (request_after (authenticate E srv req data0)) = query req"
  "rawBody (request_after (authenticate E srv req data0)) = rawBody req"
  "request.more (request_after (authenticate E srv req data0)) = request.more req"
  "stream (request_after (authenticate E srv req data0)) =
     (if data0 = JBool True then stream (snd (getRawBody req)) else stream req)"
  "listeners (request_after (authenticate E srv req data0)) =
     (if data0 = JBool True then listeners (snd (getRawBody req)) else listeners req)"
  "body (request_after (authenticate E srv req data0)) =
     (case body_argument req data0 of
        Got data \<Rightarrow> if data0 = JBool True then data else body req
      | other \<Rightarrow> body req)"
  by (simp_all add: authenticate_cases from_key_frame prepared_fields split: body_read.splits)

lemma apiKey_after:
  "apiKey (request_after (authenticate E srv req data0)) =
     (if body_argument req data0 = Hangs \<or> getApiKey E req = JUndefined then apiKey req
      else getApiKey E req)"
  by (simp add: authenticate_cases from_key_frame prepared_fields split: body_read.splits)

lemma calls_authenticate:
  "delegate_called_with (authenticate E srv req data0) =
     (if body_argument req data0 = Hangs \<or> getApiKey E req = JUndefined then []
      else case secretForKey srv of JFun f \<Rightarrow> [getApiKey E req] | _ \<Rightarrow> [])"
  by (simp add: authenticate_cases calls_from_key split: body_read.splits jsval.splits)

lemma outcome_failed:
  "body_argument req data0 = Failed e \<Longrightarrow> outcome (authenticate E srv req data0) = Rejected e"
  by (simp add: authenticate_cases)

lemma outcome_hangs:
  "body_argument req data0 = Hangs \<Longrightarrow> outcome (authenticate E srv req data0) = Pending"
  by (simp add: authenticate_cases)

lemma outcome_authenticate:
  assumes "body_argument req data0 = Got data"
  shows "outcome (authenticate E srv req data0) =
     (if getApiKey E req = JUndefined then Rejected api_key_missing
      else fst (await_secret E srv req data (getApiKey E req)
                  (result (getSecretForKey E srv (getApiKey E req)))))"
proof -
  have "outcome (authenticate E srv req data0) = outcome (from_key E srv (prepared req data0) data)"
    using assms by (simp add: authenticate_cases)
  also have "\<dots> = outcome (from_key E srv req data)"
    by (rule from_key_outcome_cong) (simp_all add: prepared_fields)
  finally show ?thesis by (simp add: outcome_from_key)
qed

lemma rejection_codes:
  "own_prop api_key_missing ''code'' = Some (JStr ''API_KEY_MISSING'')"
  "own_prop (secret_discovery_failed E key) ''code'' = Some (JStr ''INTERNAL_ERROR_SECRET_DISCOVERY'')"
  "own_prop (api_key_unrecognized E key) ''code'' = Some (JStr ''API_KEY_UNRECOGNIZED'')"
  "own_prop authorization_header_missing ''code'' = Some (JStr ''AUTHORIZATION_HEADER_MISSING'')"
  "own_prop date_header_missing ''code'' = Some (JStr ''DATE_HEADER_MISSING'')"
  "own_prop (date_header_invalid E date) ''code'' = Some (JStr ''DATE_HEADER_INVALID'')"
  "own_prop (authorization_header_invalid auth ex) ''code'' = Some (JStr ''AUTHORIZATION_HEADER_INVALID'')"
  "own_prop (hmac_algorithm_invalid E alg) ''code'' = Some (JStr ''HMAC_ALGORITHM_INVALID'')"
  "own_prop signature_invalid ''code'' = Some (JStr ''SIGNATURE_INVALID'')"
  "own_prop (timeout_error E srv key) ''code'' = Some (JStr ''INTERNAL_ERROR_SECRET_TIMEOUT'')"
  "own_prop missing_delegate_error ''code'' = None"
  by (simp_all add: api_key_missing_def secret_discovery_failed_def api_key_unrecognized_def
      authorization_header_missing_def date_header_missing_def date_header_invalid_def
      authorization_header_invalid_def hmac_algorithm_invalid_def signature_invalid_def
      timeout_error_def missing_delegate_error_def)

lemma own_objects_differ:
  "api_key_missing \<noteq> signature_invalid"
  "api_key_unrecognized E key \<noteq> signature_invalid"
  "authorization_header_missing \<noteq> signature_invalid"
  "date_header_missing \<noteq> signature_invalid"
  "date_header_invalid E date \<noteq> signature_invalid"
  "authorization_header_invalid auth ex \<noteq> signature_invalid"
  "hmac_algorithm_invalid E alg \<noteq> signature_invalid"
  by (simp_all add: api_key_missing_def api_key_unrecognized_def
      authorization_header_missing_def date_header_missing_def date_header_invalid_def
      authorization_header_invalid_def hmac_algorithm_invalid_def signature_invalid_def)

lemma outcome_after_secret:
  assumes "body_argument req data0 = Got data"
    and "getApiKey E req \<noteq> JUndefined"
    and "result (getSecretForKey E srv (getApiKey E req)) = Fulfilled sec"
    and "sec \<noteq> JUndefined"
    and "headers req ''authorization'' = Some auth"
    and "headers req ''date'' = Some date"
  shows "outcome (authenticate E srv req data0) =
     (if too_old E srv date then Rejected (date_header_invalid E date)
      else fst (check_authorization E req data (getApiKey E req) sec auth))"
  using assms(2-6)
  by (simp add: outcome_authenticate [OF assms(1)] await_secret_outcome check_headers_outcome)

lemma check_authorization_not_date:
  "rejection_code (fst (check_authorization E r data key sec auth))
     \<noteq> Some (JStr ''DATE_HEADER_INVALID'')"
  by (simp add: check_authorization_outcome rejection_codes split: option.splits)

lemma check_authorization_codes:
  "fst (check_authorization E r data key sec auth) = Rejected e \<Longrightarrow>
   \<exists>c \<in> set server_codes. own_prop e ''code'' = Some (JStr c)"
  by (auto simp: check_authorization_outcome server_codes_def rejection_codes
      split: if_splits option.splits)

lemma check_headers_codes:
  "fst (check_headers E srv r data key sec) = Rejected e \<Longrightarrow>
   \<exists>c \<in> set server_codes. own_prop e ''code'' = Some (JStr c)"
  unfolding check_headers_outcome
  by (auto simp: server_codes_def rejection_codes dest: check_authorization_codes
      split: if_splits option.splits)

lemma from_key_flag:
  assumes "authenticated r = JBool False"
  shows "(authenticated (request_after (from_key E srv r data)) = JBool True
          \<longleftrightarrow> (\<exists>v. outcome (from_key E srv r data) = Fulfilled v))
     \<and> (authenticated (request_after (from_key E srv r data)) = JBool False
          \<longleftrightarrow> (\<forall>v. outcome (from_key E srv r data) \<noteq> Fulfilled v))
     \<and> (authenticated (request_after (from_key E srv r data)) = JBool True
      \<longrightarrow> (\<exists>auth sec canonical.
            headers r ''authorization'' = Some auth
          \<and> result (getSecretForKey E srv (getApiKey E r)) = Fulfilled sec
          \<and> canonicalize E (http_method r) (url_pathname E (url r))
                (url_query E (url r)) (headers r) data = Some canonical
          \<and> sign E canonical sec (split_on CHR '' '' auth ! 1)
              = Some (split_on CHR '' '' auth ! 2)))"
  using assms
  by (auto simp: from_key_def Let_def await_secret_def check_headers_def
      check_authorization_def split: promise.splits option.splits if_splits prod.splits)

lemma expected_from_key:
  assumes "result (getSecretForKey E srv (getApiKey E r)) = Fulfilled sec"
    and "headers r ''authorization'' = Some auth"
    and "(\<exists>v. outcome (from_key E srv r data) = Fulfilled v)
            \<or> outcome (from_key E srv r data) = Rejected signature_invalid"
  shows "\<exists>canonical calculated.
            canonicalize E (http_method r) (url_pathname E (url r))
                (url_query E (url r)) (headers r) data = Some canonical
          \<and> sign E canonical sec (split_on CHR '' '' auth ! 1) = Some calculated
          \<and> signatureExpected (request_after (from_key E srv r data)) = JStr calculated"
  using assms
  by (auto simp: from_key_def Let_def await_secret_def check_headers_def
      check_authorization_def own_objects_differ
      split: promise.splits option.splits if_splits prod.splits)

lemma settled_sync:
  "result s \<noteq> Pending \<Longrightarrow>
   result (foldl (\<lambda>s (error, sec). callback error sec s) s cs) = result s"
  by (induction cs arbitrary: s)
    (simp_all add: callback_def Let_def lookup_fields clearTimeout_def split: prod.splits)

lemma settled_at_start:
  "result (lookup_start E srv key) \<noteq> Pending \<Longrightarrow>
   result (getSecretForKey E srv key) = result (lookup_start E srv key)"
  by (simp add: getSecretForKey_def settled_events)

lemma settled_timer:
  "result s \<noteq> Pending \<Longrightarrow> result (timer_elapses E srv key s) = result s"
  by (simp add: timer_elapses_def lookup_fields)

lemma first_sync_callback:
  assumes "secretForKey srv = JFun f"
    and "sync_callbacks (delegate E f key) = (error, sec) # rest"
  shows "result (getSecretForKey E srv key) =
     (if truthy error \<or> sec = JUndefined then Rejected error else Fulfilled sec)"
proof -
  define s1 where "s1 = \<lparr>result = Pending, timer_armed = True, hooked = False,
                settlements = 0, timer_runs = 0, delegate_calls = [key]\<rparr>"
  define p where "p = (if truthy error \<or> sec = JUndefined then Rejected error else Fulfilled sec)"
  define s2 where "s2 = foldl (\<lambda>s (error, sec). callback error sec s) (callback error sec s1) rest"
  have settled: "p \<noteq> Pending" by (simp add: p_def)
  have "result (callback error sec s1) = p"
    by (simp add: s1_def p_def callback_def Let_def lookup_fields clearTimeout_def)
  with settled have two: "result s2 = p"
    unfolding s2_def by (simp add: settled_sync)
  have "result (lookup_start E srv key) =
      result (case returns (delegate E f key) of
         Throws e \<Rightarrow> reject e s2
       | ReturnsPromise \<Rightarrow> s2\<lparr>hooked := True\<rparr>
       | ReturnsOther \<Rightarrow> s2)"
    using assms
    by (cases "returns (delegate E f key)") (simp_all add: lookup_start_def Let_def s1_def s2_def)
  with two settled have "result (lookup_start E srv key) = p"
    by (cases "returns (delegate E f key)") (simp_all add: lookup_fields)
  with settled show ?thesis
    unfolding p_def [symmetric] by (simp add: settled_at_start)
qed

lemma first_throw:
  assumes "secretForKey srv = JFun f"
    and "sync_callbacks (delegate E f key) = []"
    and "returns (delegate E f key) = Throws error"
  shows "result (getSecretForKey E srv key) = Rejected error"
proof -
  have "result (lookup_start E srv key) = Rejected error"
    using assms by (simp add: lookup_start_def Let_def lookup_fields)
  then show ?thesis by (simp add: settled_at_start)
qed

lemma first_later_event:
  assumes "secretForKey srv = JFun f"
    and "sync_callbacks (delegate E f key) = []"
    and "\<forall>e. returns (delegate E f key) \<noteq> Throws e"
    and "before_timeout (delegate E f key) = d # rest"
    and "result (on_delegate_event
           \<lparr>result = Pending, timer_armed = True,
            hooked = (returns (delegate E f key) = ReturnsPromise),
            settlements = 0, timer_runs = 0, delegate_calls = [key]\<rparr> d) \<noteq> Pending"
  shows "result (getSecretForKey E srv key) =
         result (on_delegate_event
           \<lparr>result = Pending, timer_armed = True,
            hooked = (returns (delegate E f key) = ReturnsPromise),
            settlements = 0, timer_runs = 0, delegate_calls = [key]\<rparr> d)"
proof -
  have start: "lookup_start E srv key =
      \<lparr>result = Pending, timer_armed = True,
       hooked = (returns (delegate E f key) = ReturnsPromise),
       settlements = 0, timer_runs = 0, delegate_calls = [key]\<rparr>"
    using assms(1,2,3)
    by (cases "returns (delegate E f key)") (simp_all add: lookup_start_def Let_def)
  show ?thesis
    using assms(1,4,5)
    by (simp add: getSecretForKey_def timeline_def Let_def start settled_events settled_timer)
qed

lemma never_settles:
  assumes "secretForKey srv = JFun f"
    and "sync_callbacks (delegate E f key) = []"
    and "\<forall>e. returns (delegate E f key) \<noteq> Throws e"
    and "before_timeout (delegate E f key) = []"
  shows "result (getSecretForKey E srv key) = Rejected (timeout_error E srv key)"
proof -
  have start: "lookup_start E srv key =
      \<lparr>result = Pending, timer_armed = True,
       hooked = (returns (delegate E f key) = ReturnsPromise),
       settlements = 0, timer_runs = 0, delegate_calls = [key]\<rparr>"
    using assms(1,2,3)
    by (cases "returns (delegate E f key)") (simp_all add: lookup_start_def Let_def)
  show ?thesis
    using assms(1,4)
    by (simp add: getSecretForKey_def timeline_def Let_def start settled_events
        timer_elapses_def lookup_fields)
qed

text \<open>
  An exception in the executor: delegate 6 hands over a number as the secret, signing
  throws, and the promise is left pending with the request not authenticated.
\<close>

lemma throw_leaves_promise_pending:
  "outcome (authenticate example_env (example_server 6)
       (signed_request ''API_KEY'' ''Wed, 20 Apr 2016 18:48:24 GMT''
          ''signature sha256 sha256/SECRET/GET/items/'') JUndefined) = Pending
   \<and> authenticated (request_after (authenticate example_env (example_server 6)
       (signed_request ''API_KEY'' ''Wed, 20 Apr 2016 18:48:24 GMT''
          ''signature sha256 sha256/SECRET/GET/items/'') JUndefined)) = JBool False"
  by (simp add: run_defs example_defs)

section \<open>Freshness of the timestamp\<close>

text \<open>
  What the freshness step does: for every request that reaches it with a date header
  \<open>date\<close> (the body data are at hand, an API key was found, the secret lookup was
  fulfilled with a defined secret, the authorization header is present), the promise is
  rejected with code \<^verbatim>\<open>DATE_HEADER_INVALID\<close> exactly when the date parses to a time
  \<open>requestTime\<close> and the signed difference \<open>now - requestTime\<close> exceeds the permitted
  skew.
\<close>

lemma freshness_check:
  assumes "body_argument req data0 = Got data"
    and "getApiKey E req \<noteq> JUndefined"
    and "result (getSecretForKey E srv (getApiKey E req)) = Fulfilled sec"
    and "sec \<noteq> JUndefined"
    and "headers req ''authorization'' = Some auth"
    and "headers req ''date'' = Some date"
  shows "rejection_code (outcome (authenticate E srv req data0)) = Some (JStr ''DATE_HEADER_INVALID'')
     \<longleftrightarrow> (\<exists>requestTime. date_parse E date = Some requestTime
            \<and> exceeds (now E - requestTime) (permittedTimestampSkew (settings srv)))"
  using check_authorization_not_date [of E req data "getApiKey E req" sec auth]
  by (simp add: outcome_after_secret [OF assms] rejection_codes too_old_def
      split: option.splits)

lemma freshness_check_example:
  "rejection_code (outcome (authenticate example_env (example_server 0)
       (signed_request ''API_KEY'' ''Wed, 20 Apr 2016 18:46:24 GMT'' ''signature sha256 sha256/SECRET/GET/items/'') JUndefined))
     = Some (JStr ''DATE_HEADER_INVALID'')"
proof -
  have data: "body_argument (signed_request ''API_KEY'' ''Wed, 20 Apr 2016 18:46:24 GMT'' ''signature sha256 sha256/SECRET/GET/items/'') JUndefined = Got JUndefined"
    by (simp add: body_argument_def)
  have key: "getApiKey example_env (signed_request ''API_KEY'' ''Wed, 20 Apr 2016 18:46:24 GMT'' ''signature sha256 sha256/SECRET/GET/items/'') \<noteq> JUndefined"
    by (simp add: run_defs example_defs)
  have sec: "result (getSecretForKey example_env (example_server 0) (getApiKey example_env (signed_request ''API_KEY'' ''Wed, 20 Apr 2016 18:46:24 GMT'' ''signature sha256 sha256/SECRET/GET/items/'')))
      = Fulfilled (JStr ''SECRET'')"
    by (simp add: run_defs example_defs)
  have def: "JStr ''SECRET'' \<noteq> JUndefined" by simp
  have auth: "headers (signed_request ''API_KEY'' ''Wed, 20 Apr 2016 18:46:24 GMT'' ''signature sha256 sha256/SECRET/GET/items/'') ''authorization'' = Some ''signature sha256 sha256/SECRET/GET/items/''"
    by (simp add: example_defs)
  have date: "headers (signed_request ''API_KEY'' ''Wed, 20 Apr 2016 18:46:24 GMT'' ''signature sha256 sha256/SECRET/GET/items/'') ''date'' = Some ''Wed, 20 Apr 2016 18:46:24 GMT''"
    by (simp add: example_defs)
  have old: "\<exists>requestTime. date_parse example_env ''Wed, 20 Apr 2016 18:46:24 GMT'' = Some requestTime
      \<and> exceeds (now example_env - requestTime)
            (permittedTimestampSkew (settings (example_server 0)))"
    by (simp add: example_defs)
  show ?thesis
    using freshness_check [OF data key sec def auth date] old by simp
qed

text \<open>
  C1. The claim has a request rejected with code \<^verbatim>\<open>DATE_HEADER_INVALID\<close> whenever its
  date header is further from the server's time than the permitted skew, in either
  direction. The code compares the signed difference. Under the default skew of
  60000 ms, a correctly signed request dated 59 minutes and 24 seconds after the
  server's clock differs from it by 3564000 ms and is accepted.
\<close>

theorem future_date_accepted:
  "date_parse example_env ''Wed, 20 Apr 2016 19:48:24 GMT'' = Some 1461181704000
   \<and> permittedTimestampSkew (settings (example_server 0)) = Num 60000
   \<and> abs (now example_env - 1461181704000) > 60000
   \<and> outcome (authenticate example_env (example_server 0)
       (signed_request ''API_KEY'' ''Wed, 20 Apr 2016 19:48:24 GMT'' ''signature sha256 sha256/SECRET/GET/items/'') JUndefined)
       = Fulfilled (JObj [(''apiKey'', JStr ''API_KEY''), (''secret'', JStr ''SECRET''),
                          (''signature'', JStr ''sha256/SECRET/GET/items/'')])
   \<and> rejection_code (outcome (authenticate example_env (example_server 0)
       (signed_request ''API_KEY'' ''Wed, 20 Apr 2016 19:48:24 GMT'' ''signature sha256 sha256/SECRET/GET/items/'') JUndefined))
       \<noteq> Some (JStr ''DATE_HEADER_INVALID'')"
  by (simp add: run_defs example_defs)

text \<open>
  C10. For every request that reaches the freshness step, the body data at hand, with a
  date header that does not parse, the comparison does not trigger: the rejection code is not
  \<^verbatim>\<open>DATE_HEADER_INVALID\<close>, and the outcome is the one of authorization-header parsing
  and signature verification.
\<close>

theorem unparsable_date_passes:
  assumes "body_argument req data0 = Got data"
    and "getApiKey E req \<noteq> JUndefined"
    and "result (getSecretForKey E srv (getApiKey E req)) = Fulfilled sec"
    and "sec \<noteq> JUndefined"
    and "headers req ''authorization'' = Some auth"
    and "headers req ''date'' = Some date"
    and "date_parse E date = None"
  shows "rejection_code (outcome (authenticate E srv req data0)) \<noteq> Some (JStr ''DATE_HEADER_INVALID'')
     \<and> outcome (authenticate E srv req data0) =
         fst (check_authorization E req data (getApiKey E req) sec auth)"
  using assms(7) check_authorization_not_date [of E req data "getApiKey E req" sec auth]
  by (simp add: outcome_after_secret [OF assms(1-6)] too_old_def)

theorem unparsable_date_passes_witness:
  "date_parse example_env ''yesterday'' = None
   \<and> rejection_code (outcome (authenticate example_env (example_server 0)
       (signed_request ''API_KEY'' ''yesterday'' ''signature sha256 sha256/SECRET/GET/items/'') JUndefined))
     \<noteq> Some (JStr ''DATE_HEADER_INVALID'')"
proof -
  have data: "body_argument (signed_request ''API_KEY'' ''yesterday'' ''signature sha256 sha256/SECRET/GET/items/'') JUndefined = Got JUndefined"
    by (simp add: body_argument_def)
  have key: "getApiKey example_env (signed_request ''API_KEY'' ''yesterday'' ''signature sha256 sha256/SECRET/GET/items/'') \<noteq> JUndefined"
    by (simp add: run_defs example_defs)
  have sec: "result (getSecretForKey example_env (example_server 0) (getApiKey example_env (signed_request ''API_KEY'' ''yesterday'' ''signature sha256 sha256/SECRET/GET/items/'')))
      = Fulfilled (JStr ''SECRET'')"
    by (simp add: run_defs example_defs)
  have def: "JStr ''SECRET'' \<noteq> JUndefined" by simp
  have auth: "headers (signed_request ''API_KEY'' ''yesterday'' ''signature sha256 sha256/SECRET/GET/items/'') ''authorization'' = Some ''signature sha256 sha256/SECRET/GET/items/''"
    by (simp add: example_defs)
  have date: "headers (signed_request ''API_KEY'' ''yesterday'' ''signature sha256 sha256/SECRET/GET/items/'') ''date'' = Some ''yesterday''"
    by (simp add: example_defs)
  have bad: "date_parse example_env ''yesterday'' = None"
    by (simp add: example_defs)
  show ?thesis
    using unparsable_date_passes [OF data key sec def auth date bad] bad
    by blast
qed

section \<open>The authorization header\<close>

text \<open>
  C3, as the code has it. For every request that reaches the parsing of the
  authorization header \<open>auth\<close>, the body data at hand, \<^verbatim>\<open>authenticate\<close> rejects with code
  \<^verbatim>\<open>AUTHORIZATION_HEADER_INVALID\<close> exactly when splitting \<open>auth\<close> at every single space
  gives fewer than three pieces or the first piece is not \<^verbatim>\<open>signature\<close>, and with
  code \<^verbatim>\<open>HMAC_ALGORITHM_INVALID\<close> exactly when there are at least three pieces, the
  first is \<^verbatim>\<open>signature\<close> and the second is not a supported algorithm. Pieces after
  the third are ignored.
\<close>

theorem authorization_parsing:
  assumes "body_argument req data0 = Got data"
    and "getApiKey E req \<noteq> JUndefined"
    and "result (getSecretForKey E srv (getApiKey E req)) = Fulfilled sec"
    and "sec \<noteq> JUndefined"
    and "headers req ''authorization'' = Some auth"
    and "headers req ''date'' = Some date"
    and "\<not> too_old E srv date"
  shows "(rejection_code (outcome (authenticate E srv req data0)) = Some (JStr ''AUTHORIZATION_HEADER_INVALID'')
       \<longleftrightarrow> length (split_on CHR '' '' auth) < 3 \<or> split_on CHR '' '' auth ! 0 \<noteq> ''signature'')
     \<and> (rejection_code (outcome (authenticate E srv req data0)) = Some (JStr ''HMAC_ALGORITHM_INVALID'')
       \<longleftrightarrow> 3 \<le> length (split_on CHR '' '' auth) \<and> split_on CHR '' '' auth ! 0 = ''signature''
            \<and> split_on CHR '' '' auth ! 1 \<notin> set (algorithms E))"
  using assms(7)
  by (simp add: outcome_after_secret [OF assms(1-6)] check_authorization_outcome rejection_codes
      split: option.splits)

theorem authorization_parsing_witness:
  "rejection_code (outcome (authenticate example_env (example_server 0)
       (signed_request ''API_KEY'' ''Wed, 20 Apr 2016 18:48:24 GMT'' ''signature sha256'') JUndefined))
     = Some (JStr ''AUTHORIZATION_HEADER_INVALID'')"
proof -
  have data: "body_argument (signed_request ''API_KEY'' ''Wed, 20 Apr 2016 18:48:24 GMT'' ''signature sha256'') JUndefined = Got JUndefined"
    by (simp add: body_argument_def)
  have key: "getApiKey example_env (signed_request ''API_KEY'' ''Wed, 20 Apr 2016 18:48:24 GMT'' ''signature sha256'') \<noteq> JUndefined"
    by (simp add: run_defs example_defs)
  have sec: "result (getSecretForKey example_env (example_server 0) (getApiKey example_env (signed_request ''API_KEY'' ''Wed, 20 Apr 2016 18:48:24 GMT'' ''signature sha256'')))
      = Fulfilled (JStr ''SECRET'')"
    by (simp add: run_defs example_defs)
  have def: "JStr ''SECRET'' \<noteq> JUndefined" by simp
  have auth: "headers (signed_request ''API_KEY'' ''Wed, 20 Apr 2016 18:48:24 GMT'' ''signature sha256'') ''authorization'' = Some ''signature sha256''"
    by (simp add: example_defs)
  have date: "headers (signed_request ''API_KEY'' ''Wed, 20 Apr 2016 18:48:24 GMT'' ''signature sha256'') ''date'' = Some ''Wed, 20 Apr 2016 18:48:24 GMT''"
    by (simp add: example_defs)
  have recent: "\<not> too_old example_env (example_server 0) ''Wed, 20 Apr 2016 18:48:24 GMT''"
    by (simp add: too_old_def example_defs)
  have pieces: "split_on CHR '' '' ''signature sha256'' = [''signature'', ''sha256'']"
    by simp
  show ?thesis
    using authorization_parsing [OF data key sec def auth date recent] pieces
    by simp
qed

text \<open>
  The claim as stated asks for exactly three tokens. A header of four pieces, the first
  three of them right, is accepted.
\<close>

theorem authorization_parsing_counterexample:
  "split_on CHR '' '' ''signature sha256 sha256/SECRET/GET/items/ extra''
     = [''signature'', ''sha256'', ''sha256/SECRET/GET/items/'', ''extra'']
   \<and> outcome (authenticate example_env (example_server 0)
       (signed_request ''API_KEY'' ''Wed, 20 Apr 2016 18:48:24 GMT'' ''signature sha256 sha256/SECRET/GET/items/ extra'') JUndefined)
       = Fulfilled (JObj [(''apiKey'', JStr ''API_KEY''), (''secret'', JStr ''SECRET''),
                          (''signature'', JStr ''sha256/SECRET/GET/items/'')])
   \<and> rejection_code (outcome (authenticate example_env (example_server 0)
       (signed_request ''API_KEY'' ''Wed, 20 Apr 2016 18:48:24 GMT'' ''signature sha256 sha256/SECRET/GET/items/ extra'') JUndefined))
       \<noteq> Some (JStr ''AUTHORIZATION_HEADER_INVALID'')"
  by (simp add: run_defs example_defs)

section \<open>The authenticated flag\<close>

text \<open>
  Unless reading the body fails, the flag follows the promise: after the run it is
  \<^verbatim>\<open>true\<close> if the promise was fulfilled and \<^verbatim>\<open>false\<close> otherwise, whatever it was
  before, and it is \<^verbatim>\<open>true\<close> only if the presented signature equals the recomputed
  one.
\<close>

lemma flag_follows_outcome:
  assumes "\<forall>e. body_argument req data0 \<noteq> Failed e"
  shows "(authenticated (request_after (authenticate E srv req data0)) = JBool True
          \<longleftrightarrow> (\<exists>v. outcome (authenticate E srv req data0) = Fulfilled v))
     \<and> (authenticated (request_after (authenticate E srv req data0)) = JBool False
          \<longleftrightarrow> (\<forall>v. outcome (authenticate E srv req data0) \<noteq> Fulfilled v))"
proof (cases "body_argument req data0")
  case (Got data)
  have "authenticated (prepared req data0) = JBool False" by (simp add: prepared_fields)
  from from_key_flag [OF this, of E srv data] Got show ?thesis
    by (simp add: authenticate_cases)
next
  case (Failed e)
  with assms show ?thesis by simp
next
  case Hangs
  then show ?thesis by (simp add: authenticate_cases prepared_fields)
qed


section \<open>What authenticate writes to the request\<close>

text \<open>
  C6, as the code has it. \<^verbatim>\<open>authenticate\<close> leaves the headers, the URL, the method, the
  query and the raw body of the request, and whatever else the request carries, as
  they were. Besides \<^verbatim>\<open>authenticated\<close>, \<^verbatim>\<open>apiKey\<close>, \<^verbatim>\<open>secret\<close>, \<^verbatim>\<open>signature\<close> and
  \<^verbatim>\<open>signatureExpected\<close> it changes something only when its second argument is
  \<^verbatim>\<open>true\<close>: then it stores in \<^verbatim>\<open>body\<close> the raw body, once it has got it, and, if the
  request has no \<^verbatim>\<open>rawBody\<close>, it leaves the request's stream and listeners as
  \<^verbatim>\<open>_getRawBody\<close> leaves them, with two more listeners and drained. Whenever the run,
  with the body data at hand, gets as far as comparing signatures (it is fulfilled, or
  rejected as \<^verbatim>\<open>SIGNATURE_INVALID\<close>), \<^verbatim>\<open>signatureExpected\<close> holds the recomputed
  signature.
\<close>

theorem authenticate_frame:
  "headers (request_after (authenticate E srv req data0)) = headers req
   \<and> url (request_after (authenticate E srv req data0)) = url req
   \<and> http_method (request_after (authenticate E srv req data0)) = http_method req
   \<and> query (request_after (authenticate E srv req data0)) = query req
   \<and> rawBody (request_after (authenticate E srv req data0)) = rawBody req
   \<and> request.more (request_after (authenticate E srv req data0)) = request.more req
   \<and> (data0 \<noteq> JBool True
      \<longrightarrow> body (request_after (authenticate E srv req data0)) = body req
        \<and> stream (request_after (authenticate E srv req data0)) = stream req
        \<and> listeners (request_after (authenticate E srv req data0)) = listeners req)
   \<and> (data0 = JBool True
      \<longrightarrow> body (request_after (authenticate E srv req data0))
            = (case fst (getRawBody req) of Got data \<Rightarrow> data | other \<Rightarrow> body req)
        \<and> stream (request_after (authenticate E srv req data0)) = stream (snd (getRawBody req))
        \<and> listeners (request_after (authenticate E srv req data0))
            = listeners (snd (getRawBody req)))
   \<and> (data0 = JBool True \<and> rawBody req \<noteq> JUndefined \<and> rawBody req \<noteq> JNull
      \<longrightarrow> body (request_after (authenticate E srv req data0)) = rawBody req
        \<and> stream (request_after (authenticate E srv req data0)) = stream req
        \<and> listeners (request_after (authenticate E srv req data0)) = listeners req)
   \<and> (body_argument req data0 = Got data
       \<and> result (getSecretForKey E srv (getApiKey E req)) = Fulfilled sec
       \<and> headers req ''authorization'' = Some auth
       \<and> ((\<exists>v. outcome (authenticate E srv req data0) = Fulfilled v)
            \<or> outcome (authenticate E srv req data0) = Rejected signature_invalid)
      \<longrightarrow> (\<exists>canonical calculated.
            canonicalize E (http_method req) (url_pathname E (url req))
                (url_query E (url req)) (headers req) data = Some canonical
          \<and> sign E canonical sec (split_on CHR '' '' auth ! 1) = Some calculated
          \<and> signatureExpected (request_after (authenticate E srv req data0))
              = JStr calculated))"
proof -
  have written: "body_argument req data0 = Got data
       \<and> result (getSecretForKey E srv (getApiKey E req)) = Fulfilled sec
       \<and> headers req ''authorization'' = Some auth
       \<and> ((\<exists>v. outcome (authenticate E srv req data0) = Fulfilled v)
            \<or> outcome (authenticate E srv req data0) = Rejected signature_invalid)
      \<longrightarrow> (\<exists>canonical calculated.
            canonicalize E (http_method req) (url_pathname E (url req))
                (url_query E (url req)) (headers req) data = Some canonical
          \<and> sign E canonical sec (split_on CHR '' '' auth ! 1) = Some calculated
          \<and> signatureExpected (request_after (authenticate E srv req data0))
              = JStr calculated)"
    using expected_from_key [of E srv "prepared req data0" sec auth data]
    by (auto simp: authenticate_cases prepared_fields)
  have sentinel: "data0 = JBool True
      \<longrightarrow> body (request_after (authenticate E srv req data0))
            = (case fst (getRawBody req) of Got data \<Rightarrow> data | other \<Rightarrow> body req)"
    by (simp add: unchanged_fields body_argument_def split: body_read.splits)
  have raw: "data0 = JBool True \<and> rawBody req \<noteq> JUndefined \<and> rawBody req \<noteq> JNull
      \<longrightarrow> body (request_after (authenticate E srv req data0)) = rawBody req
        \<and> stream (request_after (authenticate E srv req data0)) = stream req
        \<and> listeners (request_after (authenticate E srv req data0)) = listeners req"
    by (simp add: unchanged_fields body_argument_def getRawBody_def)
  have plain: "data0 \<noteq> JBool True
      \<longrightarrow> body (request_after (authenticate E srv req data0)) = body req"
    by (simp add: unchanged_fields body_argument_def)
  from written sentinel raw plain show ?thesis
    by (simp add: unchanged_fields)
qed

text \<open>
  A request whose presented signature is wrong, one whose body is read from the stream,
  and one that brings its raw body.
\<close>

theorem authenticate_frame_witness:
  "signatureExpected (request_after (authenticate example_env (example_server 0)
       (signed_request ''API_KEY'' ''Wed, 20 Apr 2016 18:48:24 GMT'' ''signature sha256 0000'') JUndefined))
       = JStr ''sha256/SECRET/GET/items/''
   \<and> listeners (request_after (authenticate example_env (example_server 0)
       (signed_request ''API_KEY'' ''Wed, 20 Apr 2016 18:48:24 GMT'' ''signature sha256 0000'') JUndefined)) = []
   \<and> body (request_after (authenticate example_env (example_server 0)
       ((signed_request ''API_KEY'' ''Wed, 20 Apr 2016 18:48:24 GMT'' ''signature sha256 sha256/SECRET/GET/items/'')\<lparr>stream := Emits [''he'', ''llo'']\<rparr>) (JBool True))) = JStr ''hello''
   \<and> stream (request_after (authenticate example_env (example_server 0)
       ((signed_request ''API_KEY'' ''Wed, 20 Apr 2016 18:48:24 GMT'' ''signature sha256 sha256/SECRET/GET/items/'')\<lparr>stream := Emits [''he'', ''llo'']\<rparr>) (JBool True))) = Silent
   \<and> listeners (request_after (authenticate example_env (example_server 0)
       ((signed_request ''API_KEY'' ''Wed, 20 Apr 2016 18:48:24 GMT'' ''signature sha256 sha256/SECRET/GET/items/'')\<lparr>stream := Emits [''he'', ''llo'']\<rparr>) (JBool True)))
       = [''data'', ''end'']
   \<and> body (request_after (authenticate example_env (example_server 0)
       ((signed_request ''API_KEY'' ''Wed, 20 Apr 2016 18:48:24 GMT'' ''signature sha256 sha256/SECRET/GET/items/'')\<lparr>rawBody := JStr ''hello''\<rparr>) (JBool True))) = JStr ''hello''
   \<and> listeners (request_after (authenticate example_env (example_server 0)
       ((signed_request ''API_KEY'' ''Wed, 20 Apr 2016 18:48:24 GMT'' ''signature sha256 sha256/SECRET/GET/items/'')\<lparr>rawBody := JStr ''hello''\<rparr>) (JBool True))) = []"
proof -
  have data: "body_argument (signed_request ''API_KEY'' ''Wed, 20 Apr 2016 18:48:24 GMT'' ''signature sha256 0000'') JUndefined = Got JUndefined"
    by (simp add: body_argument_def)
  have sec: "result (getSecretForKey example_env (example_server 0)
      (getApiKey example_env (signed_request ''API_KEY'' ''Wed, 20 Apr 2016 18:48:24 GMT'' ''signature sha256 0000'')))
      = Fulfilled (JStr ''SECRET'')"
    by (simp add: run_defs example_defs)
  have auth: "headers (signed_request ''API_KEY'' ''Wed, 20 Apr 2016 18:48:24 GMT'' ''signature sha256 0000'') ''authorization'' = Some ''signature sha256 0000''"
    by (simp add: example_defs)
  have out: "outcome (authenticate example_env (example_server 0)
       (signed_request ''API_KEY'' ''Wed, 20 Apr 2016 18:48:24 GMT'' ''signature sha256 0000'') JUndefined) = Rejected signature_invalid"
    by (simp add: run_defs example_defs)
  have read: "getRawBody ((signed_request ''API_KEY'' ''Wed, 20 Apr 2016 18:48:24 GMT'' ''signature sha256 sha256/SECRET/GET/items/'')\<lparr>stream := Emits [''he'', ''llo'']\<rparr>)
      = (Got (JStr ''hello''),
         ((signed_request ''API_KEY'' ''Wed, 20 Apr 2016 18:48:24 GMT'' ''signature sha256 sha256/SECRET/GET/items/'')\<lparr>stream := Emits [''he'', ''llo'']\<rparr>)
           \<lparr>stream := Silent, listeners := [''data'', ''end'']\<rparr>)"
    by (simp add: getRawBody_def example_defs)
  have brought: "rawBody ((signed_request ''API_KEY'' ''Wed, 20 Apr 2016 18:48:24 GMT'' ''signature sha256 sha256/SECRET/GET/items/'')\<lparr>rawBody := JStr ''hello''\<rparr>) = JStr ''hello''
      \<and> rawBody ((signed_request ''API_KEY'' ''Wed, 20 Apr 2016 18:48:24 GMT'' ''signature sha256 sha256/SECRET/GET/items/'')\<lparr>rawBody := JStr ''hello''\<rparr>) \<noteq> JUndefined
      \<and> rawBody ((signed_request ''API_KEY'' ''Wed, 20 Apr 2016 18:48:24 GMT'' ''signature sha256 sha256/SECRET/GET/items/'')\<lparr>rawBody := JStr ''hello''\<rparr>) \<noteq> JNull
      \<and> listeners ((signed_request ''API_KEY'' ''Wed, 20 Apr 2016 18:48:24 GMT'' ''signature sha256 sha256/SECRET/GET/items/'')\<lparr>rawBody := JStr ''hello''\<rparr>) = []"
    by (simp add: example_defs)
  have one: "signatureExpected (request_after (authenticate example_env (example_server 0)
       (signed_request ''API_KEY'' ''Wed, 20 Apr 2016 18:48:24 GMT'' ''signature sha256 0000'') JUndefined))
       = JStr ''sha256/SECRET/GET/items/''
     \<and> listeners (request_after (authenticate example_env (example_server 0)
       (signed_request ''API_KEY'' ''Wed, 20 Apr 2016 18:48:24 GMT'' ''signature sha256 0000'') JUndefined)) = []"
    using authenticate_frame [of example_env "example_server 0"
        "signed_request ''API_KEY'' ''Wed, 20 Apr 2016 18:48:24 GMT'' ''signature sha256 0000''"
        JUndefined JUndefined "JStr ''SECRET''" "''signature sha256 0000''"]
      data sec auth out
    by (auto simp: example_defs)
  have two: "body (request_after (authenticate example_env (example_server 0)
       ((signed_request ''API_KEY'' ''Wed, 20 Apr 2016 18:48:24 GMT'' ''signature sha256 sha256/SECRET/GET/items/'')\<lparr>stream := Emits [''he'', ''llo'']\<rparr>) (JBool True))) = JStr ''hello''
     \<and> stream (request_after (authenticate example_env (example_server 0)
       ((signed_request ''API_KEY'' ''Wed, 20 Apr 2016 18:48:24 GMT'' ''signature sha256 sha256/SECRET/GET/items/'')\<lparr>stream := Emits [''he'', ''llo'']\<rparr>) (JBool True))) = Silent
     \<and> listeners (request_after (authenticate example_env (example_server 0)
       ((signed_request ''API_KEY'' ''Wed, 20 Apr 2016 18:48:24 GMT'' ''signature sha256 sha256/SECRET/GET/items/'')\<lparr>stream := Emits [''he'', ''llo'']\<rparr>) (JBool True)))
       = [''data'', ''end'']"
    using authenticate_frame [of example_env "example_server 0"
        "(signed_request ''API_KEY'' ''Wed, 20 Apr 2016 18:48:24 GMT'' ''signature sha256 sha256/SECRET/GET/items/'')\<lparr>stream := Emits [''he'', ''llo'']\<rparr>"
        "JBool True" JUndefined JUndefined "[]"]
      read
    by simp
  have three: "body (request_after (authenticate example_env (example_server 0)
       ((signed_request ''API_KEY'' ''Wed, 20 Apr 2016 18:48:24 GMT'' ''signature sha256 sha256/SECRET/GET/items/'')\<lparr>rawBody := JStr ''hello''\<rparr>) (JBool True))) = JStr ''hello''
     \<and> listeners (request_after (authenticate example_env (example_server 0)
       ((signed_request ''API_KEY'' ''Wed, 20 Apr 2016 18:48:24 GMT'' ''signature sha256 sha256/SECRET/GET/items/'')\<lparr>rawBody := JStr ''hello''\<rparr>) (JBool True))) = []"
    using authenticate_frame [of example_env "example_server 0"
        "(signed_request ''API_KEY'' ''Wed, 20 Apr 2016 18:48:24 GMT'' ''signature sha256 sha256/SECRET/GET/items/'')\<lparr>rawBody := JStr ''hello''\<rparr>"
        "JBool True" JUndefined JUndefined "[]"]
      brought
    by metis
  from one two three show ?thesis by blast
qed

text \<open>
  The claim as stated lets \<^verbatim>\<open>authenticate\<close> write five fields only. Called with
  \<^verbatim>\<open>true\<close> as its second argument, as \<^verbatim>\<open>immediateRequestHandler\<close> of
  \<^verbatim>\<open>usage/server/http_roundtrip/index.js\<close> calls it, it registers listeners on the
  request, reads the body from the stream and stores it in \<^verbatim>\<open>request.body\<close>. And the
  two signature fields hold the same, recomputed signature: a presented signature
  that differs from it is not recorded.
\<close>

theorem authenticate_frame_counterexample:
  "body ((signed_request ''API_KEY'' ''Wed, 20 Apr 2016 18:48:24 GMT'' ''signature sha256 sha256/SECRET/GET/items/'')\<lparr>stream := Emits [''he'', ''llo'']\<rparr>) = JUndefined
   \<and> body (request_after (authenticate example_env (example_server 0)
       ((signed_request ''API_KEY'' ''Wed, 20 Apr 2016 18:48:24 GMT'' ''signature sha256 sha256/SECRET/GET/items/'')\<lparr>stream := Emits [''he'', ''llo'']\<rparr>) (JBool True)))
       = JStr ''hello''
   \<and> listeners ((signed_request ''API_KEY'' ''Wed, 20 Apr 2016 18:48:24 GMT'' ''signature sha256 sha256/SECRET/GET/items/'')\<lparr>stream := Emits [''he'', ''llo'']\<rparr>) = []
   \<and> listeners (request_after (authenticate example_env (example_server 0)
       ((signed_request ''API_KEY'' ''Wed, 20 Apr 2016 18:48:24 GMT'' ''signature sha256 sha256/SECRET/GET/items/'')\<lparr>stream := Emits [''he'', ''llo'']\<rparr>) (JBool True)))
       = [''data'', ''end'']
   \<and> signature (request_after (authenticate example_env (example_server 0)
       (signed_request ''API_KEY'' ''Wed, 20 Apr 2016 18:48:24 GMT'' ''signature sha256 0000'') JUndefined))
       = JStr ''sha256/SECRET/GET/items/''
   \<and> signatureExpected (request_after (authenticate example_env (example_server 0)
       (signed_request ''API_KEY'' ''Wed, 20 Apr 2016 18:48:24 GMT'' ''signature sha256 0000'') JUndefined))
       = JStr ''sha256/SECRET/GET/items/''"
  by (simp add: run_defs example_defs)

section \<open>Where the API key comes from\<close>

text \<open>
  C8. In every run that gets past the reading of the body, the API key
  \<^verbatim>\<open>authenticate\<close> records on the request and hands to the delegate is the
  \<^verbatim>\<open>x-api-key\<close> header when the request has one; without that header it is the
  \<^verbatim>\<open>apiKey\<close> entry of \<^verbatim>\<open>request.query\<close> when the request has a query object, and
  otherwise the \<^verbatim>\<open>apiKey\<close> parameter parsed from the URL. When none of these gives a
  key, the delegate is not called and no key is recorded, and with the body data at
  hand the promise is rejected with code \<^verbatim>\<open>API_KEY_MISSING\<close>.
\<close>

theorem api_key_source:
  "(body_argument req data0 \<noteq> Hangs \<and> headers req ''x-api-key'' = Some k
      \<longrightarrow> apiKey (request_after (authenticate E srv req data0)) = JStr k
        \<and> (secretForKey srv = JFun f
             \<longrightarrow> delegate_called_with (authenticate E srv req data0) = [JStr k]))
   \<and> (body_argument req data0 \<noteq> Hangs
        \<and> headers req ''x-api-key'' = None \<and> query req = Some q \<and> q ''apiKey'' = Some v
        \<and> v \<noteq> JUndefined
      \<longrightarrow> apiKey (request_after (authenticate E srv req data0)) = v
        \<and> (secretForKey srv = JFun f
             \<longrightarrow> delegate_called_with (authenticate E srv req data0) = [v]))
   \<and> (body_argument req data0 \<noteq> Hangs
        \<and> headers req ''x-api-key'' = None \<and> query req = None
        \<and> querystring_parse E (url_query E (url req)) ''apiKey'' = Some v \<and> v \<noteq> JUndefined
      \<longrightarrow> apiKey (request_after (authenticate E srv req data0)) = v
        \<and> (secretForKey srv = JFun f
             \<longrightarrow> delegate_called_with (authenticate E srv req data0) = [v]))
   \<and> (headers req ''x-api-key'' = None
        \<and> (case query req of
              Some q \<Rightarrow> q ''apiKey''
            | None \<Rightarrow> querystring_parse E (url_query E (url req)) ''apiKey'')
           \<in> {None, Some JUndefined}
      \<longrightarrow> delegate_called_with (authenticate E srv req data0) = []
        \<and> apiKey (request_after (authenticate E srv req data0)) = apiKey req
        \<and> (body_argument req data0 = Got data
            \<longrightarrow> outcome (authenticate E srv req data0) = Rejected api_key_missing
              \<and> rejection_code (outcome (authenticate E srv req data0))
                  = Some (JStr ''API_KEY_MISSING'')))"
proof -
  have missing: "body_argument req data0 = Got data \<Longrightarrow> getApiKey E req = JUndefined \<Longrightarrow>
      outcome (authenticate E srv req data0) = Rejected api_key_missing
      \<and> rejection_code (outcome (authenticate E srv req data0)) = Some (JStr ''API_KEY_MISSING'')"
    by (simp add: outcome_authenticate rejection_codes)
  then show ?thesis
    by (auto simp: apiKey_after calls_authenticate getApiKey_def Let_def split: option.splits)
qed

theorem api_key_source_witness:
  "apiKey (request_after (authenticate example_env (example_server 0)
       (signed_request ''API_KEY'' ''Wed, 20 Apr 2016 18:48:24 GMT'' ''signature sha256 sha256/SECRET/GET/items/'') JUndefined)) = JStr ''API_KEY''
   \<and> delegate_called_with (authenticate example_env (example_server 0)
       (signed_request ''API_KEY'' ''Wed, 20 Apr 2016 18:48:24 GMT'' ''signature sha256 sha256/SECRET/GET/items/'') JUndefined) = [JStr ''API_KEY'']
   \<and> apiKey (request_after (authenticate example_env (example_server 0)
       ((example_request Map.empty)\<lparr>query := Some [''apiKey'' \<mapsto> JStr ''API_KEY_TWO'']\<rparr>) JUndefined)) = JStr ''API_KEY_TWO''
   \<and> delegate_called_with (authenticate example_env (example_server 0)
       ((example_request Map.empty)\<lparr>query := Some [''apiKey'' \<mapsto> JStr ''API_KEY_TWO'']\<rparr>) JUndefined) = [JStr ''API_KEY_TWO'']
   \<and> apiKey (request_after (authenticate example_env (example_server 0)
       ((example_request Map.empty)\<lparr>url := ''/items/?apiKey=API_KEY_THREE''\<rparr>) JUndefined)) = JStr ''API_KEY_THREE''
   \<and> delegate_called_with (authenticate example_env (example_server 0)
       ((example_request Map.empty)\<lparr>url := ''/items/?apiKey=API_KEY_THREE''\<rparr>) JUndefined) = [JStr ''API_KEY_THREE'']
   \<and> rejection_code (outcome (authenticate example_env (example_server 0)
       (example_request Map.empty) JUndefined))
       = Some (JStr ''API_KEY_MISSING'')
   \<and> delegate_called_with (authenticate example_env (example_server 0)
       (example_request Map.empty) JUndefined) = []"
proof -
  have srv: "secretForKey (example_server 0) = JFun 0"
    by (simp add: example_defs)
  have one: "body_argument (signed_request ''API_KEY'' ''Wed, 20 Apr 2016 18:48:24 GMT'' ''signature sha256 sha256/SECRET/GET/items/'') JUndefined \<noteq> Hangs
      \<and> headers (signed_request ''API_KEY'' ''Wed, 20 Apr 2016 18:48:24 GMT'' ''signature sha256 sha256/SECRET/GET/items/'') ''x-api-key'' = Some ''API_KEY''"
    by (simp add: body_argument_def example_defs)
  have two: "body_argument ((example_request Map.empty)\<lparr>query := Some [''apiKey'' \<mapsto> JStr ''API_KEY_TWO'']\<rparr>) JUndefined \<noteq> Hangs
      \<and> headers ((example_request Map.empty)\<lparr>query := Some [''apiKey'' \<mapsto> JStr ''API_KEY_TWO'']\<rparr>) ''x-api-key'' = None
      \<and> query ((example_request Map.empty)\<lparr>query := Some [''apiKey'' \<mapsto> JStr ''API_KEY_TWO'']\<rparr>) = Some [''apiKey'' \<mapsto> JStr ''API_KEY_TWO'']
      \<and> [''apiKey'' \<mapsto> JStr ''API_KEY_TWO''] ''apiKey'' = Some (JStr ''API_KEY_TWO'')
      \<and> JStr ''API_KEY_TWO'' \<noteq> JUndefined"
    by (simp add: body_argument_def example_defs)
  have three: "body_argument ((example_request Map.empty)\<lparr>url := ''/items/?apiKey=API_KEY_THREE''\<rparr>) JUndefined \<noteq> Hangs
      \<and> headers ((example_request Map.empty)\<lparr>url := ''/items/?apiKey=API_KEY_THREE''\<rparr>) ''x-api-key'' = None
      \<and> query ((example_request Map.empty)\<lparr>url := ''/items/?apiKey=API_KEY_THREE''\<rparr>) = None
      \<and> querystring_parse example_env (url_query example_env (url ((example_request Map.empty)\<lparr>url := ''/items/?apiKey=API_KEY_THREE''\<rparr>))) ''apiKey''
          = Some (JStr ''API_KEY_THREE'')
      \<and> JStr ''API_KEY_THREE'' \<noteq> JUndefined"
    by (simp add: body_argument_def example_defs)
  have four: "headers (example_request Map.empty) ''x-api-key'' = None
      \<and> (case query (example_request Map.empty) of
              Some q \<Rightarrow> q ''apiKey''
            | None \<Rightarrow> querystring_parse example_env (url_query example_env (url (example_request Map.empty))) ''apiKey'')
           \<in> {None, Some JUndefined}"
    by (simp add: example_defs)
  have data: "body_argument (example_request Map.empty) JUndefined = Got JUndefined"
    by (simp add: body_argument_def)
  have first: "apiKey (request_after (authenticate example_env (example_server 0)
       (signed_request ''API_KEY'' ''Wed, 20 Apr 2016 18:48:24 GMT'' ''signature sha256 sha256/SECRET/GET/items/'') JUndefined)) = JStr ''API_KEY''
      \<and> delegate_called_with (authenticate example_env (example_server 0)
       (signed_request ''API_KEY'' ''Wed, 20 Apr 2016 18:48:24 GMT'' ''signature sha256 sha256/SECRET/GET/items/'') JUndefined) = [JStr ''API_KEY'']"
    using srv one
      api_key_source [where E = example_env and srv = "example_server 0" and ?data0.0 = JUndefined
        and f = 0 and req = "signed_request ''API_KEY'' ''Wed, 20 Apr 2016 18:48:24 GMT'' ''signature sha256 sha256/SECRET/GET/items/''" and k = "''API_KEY''"]
    by blast
  have second: "apiKey (request_after (authenticate example_env (example_server 0)
       ((example_request Map.empty)\<lparr>query := Some [''apiKey'' \<mapsto> JStr ''API_KEY_TWO'']\<rparr>) JUndefined)) = JStr ''API_KEY_TWO''
      \<and> delegate_called_with (authenticate example_env (example_server 0)
       ((example_request Map.empty)\<lparr>query := Some [''apiKey'' \<mapsto> JStr ''API_KEY_TWO'']\<rparr>) JUndefined) = [JStr ''API_KEY_TWO'']"
    using srv two
      api_key_source [where E = example_env and srv = "example_server 0" and ?data0.0 = JUndefined
        and f = 0 and req = "(example_request Map.empty)\<lparr>query := Some [''apiKey'' \<mapsto> JStr ''API_KEY_TWO'']\<rparr>" and q = "[''apiKey'' \<mapsto> JStr ''API_KEY_TWO'']"
        and v = "JStr ''API_KEY_TWO''"]
    by blast
  have third: "apiKey (request_after (authenticate example_env (example_server 0)
       ((example_request Map.empty)\<lparr>url := ''/items/?apiKey=API_KEY_THREE''\<rparr>) JUndefined)) = JStr ''API_KEY_THREE''
      \<and> delegate_called_with (authenticate example_env (example_server 0)
       ((example_request Map.empty)\<lparr>url := ''/items/?apiKey=API_KEY_THREE''\<rparr>) JUndefined) = [JStr ''API_KEY_THREE'']"
    using srv three
      api_key_source [where E = example_env and srv = "example_server 0" and ?data0.0 = JUndefined
        and f = 0 and req = "(example_request Map.empty)\<lparr>url := ''/items/?apiKey=API_KEY_THREE''\<rparr>" and v = "JStr ''API_KEY_THREE''"]
    by blast
  have fourth: "rejection_code (outcome (authenticate example_env (example_server 0)
       (example_request Map.empty) JUndefined)) = Some (JStr ''API_KEY_MISSING'')
      \<and> delegate_called_with (authenticate example_env (example_server 0)
       (example_request Map.empty) JUndefined) = []"
    using four data
      api_key_source [where E = example_env and srv = "example_server 0" and ?data0.0 = JUndefined
        and f = 0 and req = "example_request Map.empty" and data = JUndefined]
    by blast
  from first second third fourth show ?thesis by blast
qed

section \<open>Outcomes of the secret lookup\<close>

text \<open>
  C2, as the code has it. For every API key \<open>key\<close> found on the request, the body
  data at hand, and every delegate function, by what the delegate does first:
  \<^item> its promise fulfils with \<^verbatim>\<open>undefined\<close>: the code is \<^verbatim>\<open>API_KEY_UNRECOGNIZED\<close>;
  \<^item> it fails with a value \<open>error\<close> (it calls back, at once or later, with a truthy
    error or with no secret; it throws; its promise rejects): the rejection value is
    \<open>error\<close> itself, unchanged, unless \<open>error\<close> is \<^verbatim>\<open>undefined\<close>, and then the code is
    \<^verbatim>\<open>INTERNAL_ERROR_SECRET_DISCOVERY\<close>;
  \<^item> nothing before the timeout: the code is \<^verbatim>\<open>INTERNAL_ERROR_SECRET_TIMEOUT\<close>.
\<close>

theorem secret_outcomes:
  assumes "body_argument req data0 = Got data"
    and "getApiKey E req = key" and "key \<noteq> JUndefined"
    and "secretForKey srv = JFun f" and "delegate E f key = b"
  shows
   "(sync_callbacks b = [] \<and> returns b = ReturnsPromise
        \<and> before_timeout b = PromiseFulfilled JUndefined # rest
      \<longrightarrow> rejection_code (outcome (authenticate E srv req data0))
            = Some (JStr ''API_KEY_UNRECOGNIZED''))
    \<and> ((sync_callbacks b = (error, sec) # others \<and> (truthy error \<or> sec = JUndefined))
        \<or> (sync_callbacks b = [] \<and> returns b = Throws error)
        \<or> (sync_callbacks b = [] \<and> returns b = ReturnsPromise
            \<and> before_timeout b = PromiseRejected error # rest)
        \<or> (sync_callbacks b = [] \<and> (\<forall>x. returns b \<noteq> Throws x)
            \<and> before_timeout b = CallbackInvoked error sec # rest
            \<and> (truthy error \<or> sec = JUndefined))
      \<longrightarrow> outcome (authenticate E srv req data0)
            = Rejected (if error = JUndefined then secret_discovery_failed E key else error)
        \<and> (error = JUndefined
            \<longrightarrow> rejection_code (outcome (authenticate E srv req data0))
                  = Some (JStr ''INTERNAL_ERROR_SECRET_DISCOVERY'')))
    \<and> (sync_callbacks b = [] \<and> (\<forall>x. returns b \<noteq> Throws x) \<and> before_timeout b = []
      \<longrightarrow> rejection_code (outcome (authenticate E srv req data0))
            = Some (JStr ''INTERNAL_ERROR_SECRET_TIMEOUT''))"
proof (intro conjI impI)
  assume "sync_callbacks b = [] \<and> returns b = ReturnsPromise
        \<and> before_timeout b = PromiseFulfilled JUndefined # rest"
  with assms(2-5) have "result (getSecretForKey E srv key) = Fulfilled JUndefined"
    using first_later_event [of srv f E key "PromiseFulfilled JUndefined" rest]
    by (simp add: lookup_fields clearTimeout_def)
  with assms(2-5) show "rejection_code (outcome (authenticate E srv req data0))
            = Some (JStr ''API_KEY_UNRECOGNIZED'')"
    by (simp add: outcome_authenticate [OF assms(1)] await_secret_outcome check_headers_outcome rejection_codes)
next
  assume fails: "(sync_callbacks b = (error, sec) # others \<and> (truthy error \<or> sec = JUndefined))
        \<or> (sync_callbacks b = [] \<and> returns b = Throws error)
        \<or> (sync_callbacks b = [] \<and> returns b = ReturnsPromise
            \<and> before_timeout b = PromiseRejected error # rest)
        \<or> (sync_callbacks b = [] \<and> (\<forall>x. returns b \<noteq> Throws x)
            \<and> before_timeout b = CallbackInvoked error sec # rest
            \<and> (truthy error \<or> sec = JUndefined))"
  from fails consider
      (sync) "sync_callbacks b = (error, sec) # others" "truthy error \<or> sec = JUndefined"
    | (throw) "sync_callbacks b = []" "returns b = Throws error"
    | (promise) "sync_callbacks b = []" "returns b = ReturnsPromise"
        "before_timeout b = PromiseRejected error # rest"
    | (later) "sync_callbacks b = []" "\<forall>x. returns b \<noteq> Throws x"
        "before_timeout b = CallbackInvoked error sec # rest" "truthy error \<or> sec = JUndefined"
    by blast
  then have "result (getSecretForKey E srv key) = Rejected error"
  proof cases
    case sync
    with assms(2-5) show ?thesis
      using first_sync_callback [of srv f E key error sec others] by simp
  next
    case throw
    with assms(2-5) show ?thesis using first_throw [of srv f E key error] by simp
  next
    case promise
    with assms(2-5) show ?thesis
      using first_later_event [of srv f E key "PromiseRejected error" rest]
      by (simp add: lookup_fields clearTimeout_def)
  next
    case later
    with assms(2-5) show ?thesis
      using first_later_event [of srv f E key "CallbackInvoked error sec" rest]
      by (simp add: callback_def Let_def lookup_fields clearTimeout_def)
  qed
  with assms(2-5) show out: "outcome (authenticate E srv req data0)
            = Rejected (if error = JUndefined then secret_discovery_failed E key else error)"
    by (simp add: outcome_authenticate [OF assms(1)] await_secret_outcome)
  assume "error = JUndefined"
  with out show "rejection_code (outcome (authenticate E srv req data0))
                  = Some (JStr ''INTERNAL_ERROR_SECRET_DISCOVERY'')"
    by (simp add: rejection_codes)
next
  assume "sync_callbacks b = [] \<and> (\<forall>x. returns b \<noteq> Throws x) \<and> before_timeout b = []"
  with assms(2-5) have "result (getSecretForKey E srv key) = Rejected (timeout_error E srv key)"
    using never_settles [of srv f E key] by simp
  with assms(2-5) show "rejection_code (outcome (authenticate E srv req data0))
            = Some (JStr ''INTERNAL_ERROR_SECRET_TIMEOUT'')"
    by (simp add: outcome_authenticate [OF assms(1)] await_secret_outcome rejection_codes timeout_error_def)
qed

text \<open>
  An unknown key with the promise-style delegate 1 and with the callback-style delegate
  0, and the silent delegate 2.
\<close>

theorem secret_outcomes_witness:
  "rejection_code (outcome (authenticate example_env (example_server 1)
       (signed_request ''NOBODY'' ''Wed, 20 Apr 2016 18:48:24 GMT'' ''signature sha256 sha256/SECRET/GET/items/'') JUndefined))
     = Some (JStr ''API_KEY_UNRECOGNIZED'')
   \<and> outcome (authenticate example_env (example_server 0)
       (signed_request ''NOBODY'' ''Wed, 20 Apr 2016 18:48:24 GMT'' ''signature sha256 sha256/SECRET/GET/items/'') JUndefined)
     = Rejected (secret_discovery_failed example_env (JStr ''NOBODY''))
   \<and> rejection_code (outcome (authenticate example_env (example_server 2)
       (signed_request ''NOBODY'' ''Wed, 20 Apr 2016 18:48:24 GMT'' ''signature sha256 sha256/SECRET/GET/items/'') JUndefined))
     = Some (JStr ''INTERNAL_ERROR_SECRET_TIMEOUT'')"
proof -
  have data: "body_argument (signed_request ''NOBODY'' ''Wed, 20 Apr 2016 18:48:24 GMT'' ''signature sha256 sha256/SECRET/GET/items/'') JUndefined = Got JUndefined"
    by (simp add: body_argument_def)
  have key: "getApiKey example_env (signed_request ''NOBODY'' ''Wed, 20 Apr 2016 18:48:24 GMT'' ''signature sha256 sha256/SECRET/GET/items/'') = JStr ''NOBODY''"
    by (simp add: getApiKey_def example_defs)
  have def: "JStr ''NOBODY'' \<noteq> JUndefined" by simp
  have srv: "secretForKey (example_server f) = JFun f" for f
    by (simp add: example_defs)
  have del: "delegate example_env f (JStr ''NOBODY'') = example_delegate f (JStr ''NOBODY'')" for f
    by (simp add: example_env_def)
  have promise: "sync_callbacks (example_delegate 1 (JStr ''NOBODY'')) = []
      \<and> returns (example_delegate 1 (JStr ''NOBODY'')) = ReturnsPromise
      \<and> before_timeout (example_delegate 1 (JStr ''NOBODY'')) = PromiseFulfilled JUndefined # []"
    by (simp add: example_defs)
  have callback: "sync_callbacks (example_delegate 0 (JStr ''NOBODY'')) = (JUndefined, JUndefined) # []
      \<and> (truthy JUndefined \<or> JUndefined = JUndefined)"
    by (simp add: example_defs)
  have silent: "sync_callbacks (example_delegate 2 (JStr ''NOBODY'')) = []
      \<and> (\<forall>x. returns (example_delegate 2 (JStr ''NOBODY'')) \<noteq> Throws x)
      \<and> before_timeout (example_delegate 2 (JStr ''NOBODY'')) = []"
    by (simp add: example_defs)
  show ?thesis
    using promise callback silent
      secret_outcomes [OF data key def srv del, where f = 1 and rest = "[]"]
      secret_outcomes [OF data key def srv del, where f = 0
        and error = JUndefined and sec = JUndefined and others = "[]"]
      secret_outcomes [OF data key def srv del, where f = 2]
    by simp
qed

text \<open>
  The claim as stated gives an unknown key the code \<^verbatim>\<open>API_KEY_UNRECOGNIZED\<close> under
  both conventions, and a failing delegate the code \<^verbatim>\<open>INTERNAL_ERROR_SECRET_DISCOVERY\<close>.
  The callback-style delegate of \<^verbatim>\<open>usage/server/http_roundtrip/index.js\<close> answers an
  unknown key with \<^verbatim>\<open>callback()\<close>, which is rejected as
  \<^verbatim>\<open>INTERNAL_ERROR_SECRET_DISCOVERY\<close>; and the error object of delegate 3 is the rejection
  value as it is, with no code.
\<close>

theorem secret_outcomes_counterexample:
  "sync_callbacks (delegate example_env 0 (JStr ''NOBODY'')) = [(JUndefined, JUndefined)]
   \<and> rejection_code (outcome (authenticate example_env (example_server 0)
       (signed_request ''NOBODY'' ''Wed, 20 Apr 2016 18:48:24 GMT'' ''signature sha256 sha256/SECRET/GET/items/'') JUndefined))
       = Some (JStr ''INTERNAL_ERROR_SECRET_DISCOVERY'')
   \<and> sync_callbacks (delegate example_env 3 (JStr ''NOBODY''))
       = [(JObj [(''message'', JStr ''API key not found'')], JUndefined)]
   \<and> outcome (authenticate example_env (example_server 3)
       (signed_request ''NOBODY'' ''Wed, 20 Apr 2016 18:48:24 GMT'' ''signature sha256 sha256/SECRET/GET/items/'') JUndefined)
       = Rejected (JObj [(''message'', JStr ''API key not found'')])
   \<and> rejection_code (outcome (authenticate example_env (example_server 3)
       (signed_request ''NOBODY'' ''Wed, 20 Apr 2016 18:48:24 GMT'' ''signature sha256 sha256/SECRET/GET/items/'') JUndefined)) = None"
  by (simp add: run_defs example_defs secret_discovery_failed_def)

section \<open>Rejection values\<close>

text \<open>
  C5, as the code has it. A rejection value of \<^verbatim>\<open>authenticate\<close> is an object carrying
  one of the server's codes, or a value handed on unchanged: the value the secret
  lookup was rejected with, which is not \<^verbatim>\<open>undefined\<close> (what the delegate failed with,
  or what the lookup rejects with when no delegate is configured), or the error that
  reading the body failed with. With the body data at hand, an API key and no delegate
  function the rejection is immediate: the lookup is rejected before any event, no
  timer is registered, no delegate is called, and the rejection value is an object
  whose message is \<^verbatim>\<open>Missing secretForKey function\<close>.
\<close>

theorem rejection_values:
  "(outcome (authenticate E srv req data0) = Rejected e
      \<longrightarrow> (\<exists>c \<in> set server_codes. own_prop e ''code'' = Some (JStr c))
        \<or> (e \<noteq> JUndefined
            \<and> result (getSecretForKey E srv (getApiKey E req)) = Rejected e)
        \<or> body_argument req data0 = Failed e)
   \<and> (body_argument req data0 = Got data
       \<and> getApiKey E req \<noteq> JUndefined \<and> (\<forall>f. secretForKey srv \<noteq> JFun f)
      \<longrightarrow> (\<exists>x. outcome (authenticate E srv req data0) = Rejected x
              \<and> own_prop x ''message'' = Some (JStr ''Missing secretForKey function''))
        \<and> delegate_called_with (authenticate E srv req data0) = []
        \<and> timeline E srv (getApiKey E req) = []
        \<and> result (lookup_start E srv (getApiKey E req)) \<noteq> Pending)"
proof (intro conjI impI)
  assume rej: "outcome (authenticate E srv req data0) = Rejected e"
  show "(\<exists>c \<in> set server_codes. own_prop e ''code'' = Some (JStr c))
        \<or> (e \<noteq> JUndefined
            \<and> result (getSecretForKey E srv (getApiKey E req)) = Rejected e)
        \<or> body_argument req data0 = Failed e"
  proof (cases "body_argument req data0")
    case Hangs
    with rej show ?thesis by (simp add: outcome_hangs)
  next
    case (Failed x)
    with rej show ?thesis by (simp add: outcome_failed)
  next
    case (Got d)
    note out = outcome_authenticate [OF Got, of E srv]
    show ?thesis
    proof (cases "getApiKey E req = JUndefined")
      case True
      with rej show ?thesis
        by (auto simp: out server_codes_def rejection_codes)
    next
      case False
      show ?thesis
      proof (cases "result (getSecretForKey E srv (getApiKey E req))")
        case Pending
        with lookup_settled show ?thesis by blast
      next
        case (Fulfilled sec)
        with rej False have "fst (check_headers E srv req d (getApiKey E req) sec) = Rejected e"
          by (simp add: out await_secret_outcome)
        then show ?thesis by (blast dest: check_headers_codes)
      next
        case (Rejected x)
        with rej False show ?thesis
          by (auto simp: out await_secret_outcome server_codes_def rejection_codes
              secret_discovery_failed_def split: if_splits)
      qed
    qed
  qed
next
  assume a: "body_argument req data0 = Got data
       \<and> getApiKey E req \<noteq> JUndefined \<and> (\<forall>f. secretForKey srv \<noteq> JFun f)"
  then have got: "body_argument req data0 = Got data" by simp
  from a have start: "lookup_start E srv (getApiKey E req) =
      \<lparr>result = Rejected missing_delegate_error, timer_armed = False, hooked = False,
       settlements = 1, timer_runs = 0, delegate_calls = []\<rparr>"
    by (cases "secretForKey srv") (simp_all add: lookup_start_def reject_def)
  from a have tl: "timeline E srv (getApiKey E req) = []"
    by (cases "secretForKey srv") (simp_all add: timeline_def)
  from start tl
  have res: "result (getSecretForKey E srv (getApiKey E req)) = Rejected missing_delegate_error"
    by (simp add: getSecretForKey_def)
  have "outcome (authenticate E srv req data0) = Rejected missing_delegate_error"
    using a res
    by (simp add: outcome_authenticate [OF got] await_secret_outcome missing_delegate_error_def)
  then show "\<exists>x. outcome (authenticate E srv req data0) = Rejected x
              \<and> own_prop x ''message'' = Some (JStr ''Missing secretForKey function'')"
    by (simp add: missing_delegate_error_def)
  from a show "delegate_called_with (authenticate E srv req data0) = []"
    by (cases "secretForKey srv") (simp_all add: calls_authenticate)
  from tl show "timeline E srv (getApiKey E req) = []" .
  from start show "result (lookup_start E srv (getApiKey E req)) \<noteq> Pending" by simp
qed

text \<open>A stale request, and a server without a delegate.\<close>

theorem rejection_values_witness:
  "((\<exists>c \<in> set server_codes.
       own_prop (date_header_invalid example_env ''Wed, 20 Apr 2016 18:46:24 GMT'') ''code'' = Some (JStr c))
     \<or> body_argument (signed_request ''API_KEY'' ''Wed, 20 Apr 2016 18:46:24 GMT'' ''signature sha256 sha256/SECRET/GET/items/'') JUndefined
         = Failed (date_header_invalid example_env ''Wed, 20 Apr 2016 18:46:24 GMT''))
   \<and> (\<exists>x. outcome (authenticate example_env bare_server
       (signed_request ''API_KEY'' ''Wed, 20 Apr 2016 18:46:24 GMT'' ''signature sha256 sha256/SECRET/GET/items/'') JUndefined) = Rejected x
         \<and> own_prop x ''message'' = Some (JStr ''Missing secretForKey function''))
   \<and> delegate_called_with (authenticate example_env bare_server
       (signed_request ''API_KEY'' ''Wed, 20 Apr 2016 18:46:24 GMT'' ''signature sha256 sha256/SECRET/GET/items/'') JUndefined) = []"
proof -
  have out: "outcome (authenticate example_env (example_server 0)
       (signed_request ''API_KEY'' ''Wed, 20 Apr 2016 18:46:24 GMT'' ''signature sha256 sha256/SECRET/GET/items/'') JUndefined)
      = Rejected (date_header_invalid example_env ''Wed, 20 Apr 2016 18:46:24 GMT'')"
    by (simp add: run_defs example_defs)
  have lookup: "result (getSecretForKey example_env (example_server 0)
      (getApiKey example_env (signed_request ''API_KEY'' ''Wed, 20 Apr 2016 18:46:24 GMT'' ''signature sha256 sha256/SECRET/GET/items/'')))
      \<noteq> Rejected (date_header_invalid example_env ''Wed, 20 Apr 2016 18:46:24 GMT'')"
    by (simp add: run_defs example_defs)
  have bare: "body_argument (signed_request ''API_KEY'' ''Wed, 20 Apr 2016 18:46:24 GMT'' ''signature sha256 sha256/SECRET/GET/items/'') JUndefined = Got JUndefined
      \<and> getApiKey example_env (signed_request ''API_KEY'' ''Wed, 20 Apr 2016 18:46:24 GMT'' ''signature sha256 sha256/SECRET/GET/items/'') \<noteq> JUndefined
      \<and> (\<forall>f. secretForKey bare_server \<noteq> JFun f)"
    by (simp add: body_argument_def getApiKey_def example_defs)
  show ?thesis
    using out lookup bare
      rejection_values [of example_env "example_server 0"
        "signed_request ''API_KEY'' ''Wed, 20 Apr 2016 18:46:24 GMT'' ''signature sha256 sha256/SECRET/GET/items/''"
        JUndefined "date_header_invalid example_env ''Wed, 20 Apr 2016 18:46:24 GMT''"]
      rejection_values [of example_env bare_server
        "signed_request ''API_KEY'' ''Wed, 20 Apr 2016 18:46:24 GMT'' ''signature sha256 sha256/SECRET/GET/items/''"
        JUndefined _ JUndefined]
    by blast
qed

text \<open>
  The claim as stated gives every rejection value a code. The string that delegate 4
  calls back with is the rejection value, a bare string; and the object a server without
  a delegate rejects with has a message and details, and no code.
\<close>

theorem rejection_values_counterexample:
  "outcome (authenticate example_env (example_server 4)
       (signed_request ''API_KEY'' ''Wed, 20 Apr 2016 18:46:24 GMT'' ''signature sha256 sha256/SECRET/GET/items/'') JUndefined)
     = Rejected (JStr ''database unavailable'')
   \<and> outcome (authenticate example_env bare_server
       (signed_request ''API_KEY'' ''Wed, 20 Apr 2016 18:46:24 GMT'' ''signature sha256 sha256/SECRET/GET/items/'') JUndefined)
     = Rejected missing_delegate_error
   \<and> rejection_code (outcome (authenticate example_env bare_server
       (signed_request ''API_KEY'' ''Wed, 20 Apr 2016 18:46:24 GMT'' ''signature sha256 sha256/SECRET/GET/items/'') JUndefined)) = None"
  by (simp add: run_defs example_defs missing_delegate_error_def)

end
